theory Spec2Isabelle
  imports Complex_Main "HOL-Library.List_Lexorder" "HOL-Library.Char_ord" "HOL-Library.AList"
begin

section \<open>Data model\<close>

text \<open>
  The TypeScript interfaces of \<^verbatim>\<open>common/types.ts\<close> and of the path component
  (the script block of \<^verbatim>\<open>components/marker-head-angle.vue\<close> that defines
  \<^verbatim>\<open>pathList\<close> and \<^verbatim>\<open>_calculatePathPoints\<close>) become records. Field names carry a short prefix of
  their record, since several interfaces share the names \<^verbatim>\<open>source\<close>,
  \<^verbatim>\<open>target\<close> and \<^verbatim>\<open>edges\<close>. The open property bag of a node, an
  edge or a path (\<^verbatim>\<open>[x: string]: any\<close>) is the extension part of the record scheme.
  A \<^verbatim>\<open>Record<string, T>\<close> is a partial map from identifiers to \<open>T\<close>, holding
  the object's own properties; what the object inherits is added by the lookup.
\<close>

record Edge =
  edge_source :: string
  edge_target :: string

record Path =
  path_edges :: "string list"

record 'e EdgeObject =
  eo_edgeId :: string
  eo_edge :: "'e Edge_scheme"

record ('p, 'e) PathObject =
  po_path :: "'p Path_scheme"
  po_edges :: "'e EdgeObject list"

section \<open>Property lookup\<close>

text \<open>
  A lookup \<^verbatim>\<open>obj[key]\<close> and the test \<^verbatim>\<open>key in obj\<close> follow the prototype
  chain: an ordinary object without an own property \<open>key\<close> answers with the property of
  \<^verbatim>\<open>Object.prototype\<close> when \<open>key\<close> is one of its names. These are the names
  that \<^verbatim>\<open>Object.prototype\<close> defines.
\<close>

definition objectPrototypeNames :: "string list" where
  "objectPrototypeNames =
     [''constructor'', ''__defineGetter__'', ''__defineSetter__'', ''hasOwnProperty'',
      ''__lookupGetter__'', ''__lookupSetter__'', ''isPrototypeOf'', ''propertyIsEnumerable'',
      ''toString'', ''valueOf'', ''__proto__'', ''toLocaleString'']"

text \<open>
  What a lookup finds: an own property of the object, or the value that
  \<^verbatim>\<open>Object.prototype\<close> holds under the name (a function, and the prototype object
  itself for \<^verbatim>\<open>__proto__\<close>). \<open>None\<close> is \<^verbatim>\<open>undefined\<close>. The own
  properties of the maps of this program are objects, so whatever a lookup finds is truthy.
\<close>

datatype 'a property = Own 'a | Inherited string

definition getProperty :: "(string \<rightharpoonup> 'a) \<Rightarrow> string \<Rightarrow> 'a property option" where
  "getProperty obj key =
     (case obj key of
        Some v \<Rightarrow> Some (Own v)
      | None \<Rightarrow> if key \<in> set objectPrototypeNames then Some (Inherited key) else None)"

text \<open>\<^verbatim>\<open>key in obj\<close>.\<close>

definition hasProperty :: "(string \<rightharpoonup> 'a) \<Rightarrow> string \<Rightarrow> bool" where
  "hasProperty obj key = (obj key \<noteq> None \<or> key \<in> set objectPrototypeNames)"

section \<open>The renderable path list (\<^verbatim>\<open>pathList\<close>)\<close>

text \<open>
  The objects that \<^verbatim>\<open>pathList\<close> builds, \<^verbatim>\<open>{ edgeId, edge: props.edges[edgeId] }\<close>
  and \<^verbatim>\<open>{ path, edges }\<close>. They have the fields of \<^verbatim>\<open>EdgeObject\<close> and
  \<^verbatim>\<open>PathObject\<close>; their \<^verbatim>\<open>edge\<close> is what the lookup found, an edge of the map or
  a value inherited from \<^verbatim>\<open>Object.prototype\<close>.
\<close>

record 'e EdgeEntry =
  ee_edgeId :: string
  ee_edge :: "'e Edge_scheme property"

record ('p, 'e) PathEntry =
  pe_path :: "'p Path_scheme"
  pe_edges :: "'e EdgeEntry list"

text \<open>
  \<^verbatim>\<open>path.edges.map(edgeId => ({ edgeId, edge: props.edges[edgeId] })).filter(e => e.edge)\<close>:
  every identifier is looked up, and the entries whose lookup gave \<^verbatim>\<open>undefined\<close> are
  filtered out.
\<close>

definition resolveEdges :: "(string \<rightharpoonup> 'e Edge_scheme) \<Rightarrow> string list \<Rightarrow> 'e EdgeEntry list" where
  "resolveEdges edges ids =
     List.map_filter
       (\<lambda>edgeId. map_option (\<lambda>e. \<lparr>ee_edgeId = edgeId, ee_edge = e\<rparr>) (getProperty edges edgeId))
       ids"

text \<open>
  The \<^verbatim>\<open>for (const path of props.paths)\<close> loop with its accumulator \<^verbatim>\<open>list\<close>:
  \<^verbatim>\<open>continue\<close> keeps the accumulator, \<^verbatim>\<open>list.push\<close> appends to it.
\<close>

fun pathList_loop ::
  "(string \<rightharpoonup> 'e Edge_scheme) \<Rightarrow> ('p, 'e) PathEntry list \<Rightarrow> 'p Path_scheme list
     \<Rightarrow> ('p, 'e) PathEntry list" where
  "pathList_loop edges list [] = list"
| "pathList_loop edges list (path # paths) =
     (let es = resolveEdges edges (path_edges path) in
      if length es \<noteq> length (path_edges path)
      then pathList_loop edges list paths
      else pathList_loop edges (list @ [\<lparr>pe_path = path, pe_edges = es\<rparr>]) paths)"

definition pathList ::
  "'p Path_scheme list \<Rightarrow> (string \<rightharpoonup> 'e Edge_scheme) \<Rightarrow> ('p, 'e) PathEntry list" where
  "pathList paths edges = pathList_loop edges [] paths"

section \<open>Direction detection (\<^verbatim>\<open>_detectDirectionsOfPathEdges\<close>)\<close>

text \<open>
  \<^verbatim>\<open>[a, b].sort()\<close> on two strings: JavaScript's default sort orders strings by their
  code units, which is the lexicographic order on character lists.
\<close>

definition sort2 :: "string \<Rightarrow> string \<Rightarrow> string list" where
  "sort2 a b = (if b < a then [b, a] else [a, b])"

text \<open>
  One iteration of the \<^verbatim>\<open>for (let i = 0; i < length; i++)\<close> loop. The loop state is
  the pair of \<^verbatim>\<open>directions\<close> and \<^verbatim>\<open>lastNode\<close> (\<open>None\<close> is
  \<^verbatim>\<open>null\<close>). The reads \<^verbatim>\<open>edges[1]\<close> and \<^verbatim>\<open>edges[2]\<close> happen only
  under \<^verbatim>\<open>length > 1\<close> and \<^verbatim>\<open>length > 2\<close>, where they are in range.
\<close>

definition directionStep ::
  "'e EdgeObject list \<Rightarrow> bool list \<times> string option \<Rightarrow> nat \<Rightarrow> bool list \<times> string option" where
  "directionStep edges st i =
     (let directions = fst st;
          lastNode = snd st;
          source = edge_source (eo_edge (edges ! i));
          target = edge_target (eo_edge (edges ! i));
          isForward =
            (if i = 0 then
               (if length edges > 2 then
                  (let edge0 = sort2 source target;
                       edge1 = sort2 (edge_source (eo_edge (edges ! 1)))
                                     (edge_target (eo_edge (edges ! 1)))
                   in if edge0 ! 0 = edge1 ! 0 \<and> edge0 ! 1 = edge1 ! 1 then
                        (let next = [edge_source (eo_edge (edges ! 2)),
                                     edge_target (eo_edge (edges ! 2))]
                         in if edge_target (eo_edge (edges ! 1)) \<in> set next
                            then target = edge_source (eo_edge (edges ! 1))
                            else target = edge_target (eo_edge (edges ! 1)))
                      else target \<in> set [edge_source (eo_edge (edges ! 1)),
                                         edge_target (eo_edge (edges ! 1))])
                else target \<in> set [edge_source (eo_edge (edges ! 1)),
                                   edge_target (eo_edge (edges ! 1))])
             else lastNode = Some source)
      in (directions @ [isForward], Some (if isForward then target else source)))"

definition detectDirectionsOfPathEdges :: "'e EdgeObject list \<Rightarrow> bool list" where
  "detectDirectionsOfPathEdges edges =
     (if length edges \<le> 1 then [True]
      else fst (foldl (directionStep edges) ([], None) [0..<length edges]))"

text \<open>
  The vocabulary of the direction claim: two edges connect the identical unordered node
  pair, and the node reached after traversing edge \<open>j\<close> in its detected direction.
\<close>

definition sameUnorderedPair :: "'e Edge_scheme \<Rightarrow> 'e Edge_scheme \<Rightarrow> bool" where
  "sameUnorderedPair a b =
     ((edge_source a = edge_source b \<and> edge_target a = edge_target b)
      \<or> (edge_source a = edge_target b \<and> edge_target a = edge_source b))"

definition nodeReached :: "'e EdgeObject list \<Rightarrow> bool list \<Rightarrow> nat \<Rightarrow> string" where
  "nodeReached edges ds j =
     (if ds ! j then edge_target (eo_edge (edges ! j)) else edge_source (eo_edge (edges ! j)))"


section \<open>Geometry: points, lines and the helpers of the vector modules\<close>

text \<open>
  JavaScript numbers are modelled as real numbers: the claims are about which branch is
  taken and which value is stored, not about rounding. A \<^verbatim>\<open>Position\<close> and a
  \<^verbatim>\<open>V.Vector\<close> are both the pair of their \<^verbatim>\<open>x\<close> and \<^verbatim>\<open>y\<close>.
\<close>

type_synonym vec = "real \<times> real"

record LinePosition =
  x1 :: real
  y1 :: real
  x2 :: real
  y2 :: real

text \<open>\<^verbatim>\<open>V.Line\<close>: the two end points and the line vector \<^verbatim>\<open>v\<close>.\<close>

record VLine =
  ln_source :: vec
  ln_target :: vec
  ln_v :: vec

record Circle =
  circ_center :: vec
  circ_radius :: real

text \<open>The interface \<^verbatim>\<open>Curve\<close> of \<^verbatim>\<open>composables/state.ts\<close>.\<close>

record Curve =
  cv_center :: vec
  cv_theta :: real
  cv_circle :: Circle
  cv_control :: "vec list"

datatype ShapeType = ShapeCircle | ShapeRect

record ShapeStyle =
  sh_type :: ShapeType
  sh_radius :: real
  sh_width :: real
  sh_height :: real

datatype EdgeHeadType = HeadNone | HeadArrow | HeadAngle | HeadCircle | HeadCustom

datatype MarkerUnits = StrokeWidth | UserSpaceOnUse

record MarkerStyle =
  mk_type :: EdgeHeadType
  mk_width :: real
  mk_height :: real
  mk_margin :: real
  mk_units :: MarkerUnits

text \<open>
  The interface \<^verbatim>\<open>Line\<close> of \<^verbatim>\<open>state.ts\<close> (the value of the computed
  \<^verbatim>\<open>line\<close>); its \<^verbatim>\<open>stroke\<close> takes no part in the geometry.
\<close>

record Line =
  line_normalWidth :: real
  line_source :: MarkerStyle
  line_target :: MarkerStyle

datatype EdgeType = TypeStraight | TypeCurve

datatype EdgeKeepOrderType = Clock | Vertical | Horizontal

text \<open>
  The fields of \<^verbatim>\<open>EdgeConfig\<close> the geometry reads; \<open>None\<close> in
  \<open>cfg_margin\<close> is \<^verbatim>\<open>null\<close> or \<^verbatim>\<open>undefined\<close>.
\<close>

record EdgeConfig =
  cfg_type :: EdgeType
  cfg_margin :: "real option"
  cfg_keepOrder :: EdgeKeepOrderType

record EdgeLayoutPoint =
  lp_groupWidth :: real
  lp_pointInGroup :: real

text \<open>
  The geometric part of \<^verbatim>\<open>EdgeStateDatum\<close>; \<open>None\<close> in \<open>es_curve\<close> is
  \<^verbatim>\<open>undefined\<close>. The other fields (\<^verbatim>\<open>selected\<close>, \<^verbatim>\<open>hovered\<close>,
  the marker identifiers, ...) are the extension part of the scheme.
\<close>

record EdgeState =
  es_origin :: LinePosition
  es_labelPosition :: LinePosition
  es_position :: LinePosition
  es_curve :: "Curve option"

text \<open>
  The modules \<^verbatim>\<open>common/vector.ts\<close>, \<^verbatim>\<open>common/2d.ts\<close> and
  \<^verbatim>\<open>common/edge-group.ts\<close> are not among the sources. The functions of these modules
  that compute geometry are parameters of the model, collected in one record under their
  own names, so every theorem below holds for whatever these helpers compute. The
  intersection helpers return \<open>None\<close> for \<^verbatim>\<open>null\<close>.
\<close>

record geometry =
  calculateEdgeShiftedPosition ::
    "EdgeLayoutPoint \<Rightarrow> bool \<Rightarrow> vec \<Rightarrow> vec \<Rightarrow> real \<Rightarrow> EdgeKeepOrderType \<Rightarrow> LinePosition"
  calculateDistancesFromCenterOfNodeToEndOfNode ::
    "vec \<Rightarrow> vec \<Rightarrow> ShapeStyle \<Rightarrow> ShapeStyle \<Rightarrow> real \<times> real"
  applyMarginToLine :: "LinePosition \<Rightarrow> real \<Rightarrow> real \<Rightarrow> LinePosition"
  calculateCircleCenterAndRadiusBy3Points :: "vec \<Rightarrow> vec \<Rightarrow> vec \<Rightarrow> vec \<times> real"
  calculateRelativeAngleRadian :: "vec \<Rightarrow> vec \<Rightarrow> real"
  moveOnCircumference :: "vec \<Rightarrow> vec \<Rightarrow> real \<Rightarrow> vec"
  reverseAngleRadian :: "real \<Rightarrow> real"
  calculateBezierCurveControlPoint :: "vec \<Rightarrow> vec \<Rightarrow> vec \<Rightarrow> real \<Rightarrow> vec list"
  normalize_vec :: "vec \<Rightarrow> vec"
  calculateDistance :: "vec \<Rightarrow> vec \<Rightarrow> real"
  getIntersectionOfLineTargetAndCircle :: "vec \<Rightarrow> vec \<Rightarrow> vec \<Rightarrow> real \<Rightarrow> vec option"
  getIntersectionOfLineTargetAndCircle2 ::
    "vec \<Rightarrow> vec \<Rightarrow> vec \<Rightarrow> real \<Rightarrow> vec \<Rightarrow> vec option"
  getIntersectionOfCircles :: "vec \<Rightarrow> real \<Rightarrow> vec \<Rightarrow> real \<Rightarrow> vec \<Rightarrow> vec option"
  getIntersectionPointOfLines :: "VLine \<Rightarrow> VLine \<Rightarrow> vec option"

text \<open>
  The constructors, conversions and vector arithmetic of \<^verbatim>\<open>common/vector.ts\<close> and
  \<^verbatim>\<open>common/2d.ts\<close> only rearrange or add coordinates. They are defined here from
  what the spec's glossary and its section 4.3 say about lines: a line position is the
  segment from \<open>(x1, y1)\<close> to \<open>(x2, y2)\<close>, its line vector points from source to
  target, and the shifted midpoint is the midpoint of the shifted position.
\<close>

text \<open>
  Modelled from the spec: \<^verbatim>\<open>add\<close> of \<^verbatim>\<open>V.Vector\<close> (\<^verbatim>\<open>common/vector.ts\<close>,
  not among the sources), the sum of two vectors.
\<close>

definition vec_add :: "vec \<Rightarrow> vec \<Rightarrow> vec" where
  "vec_add a b = (fst a + fst b, snd a + snd b)"

text \<open>
  Modelled from the spec: \<^verbatim>\<open>subtract\<close> of \<^verbatim>\<open>V.Vector\<close>
  (\<^verbatim>\<open>common/vector.ts\<close>, not among the sources), the difference of two vectors.
\<close>

definition vec_subtract :: "vec \<Rightarrow> vec \<Rightarrow> vec" where
  "vec_subtract a b = (fst a - fst b, snd a - snd b)"

text \<open>
  Modelled from the spec: \<^verbatim>\<open>multiplyScalar\<close> of \<^verbatim>\<open>V.Vector\<close>
  (\<^verbatim>\<open>common/vector.ts\<close>, not among the sources), the vector scaled by a number.
\<close>

definition multiplyScalar :: "vec \<Rightarrow> real \<Rightarrow> vec" where
  "multiplyScalar a k = (fst a * k, snd a * k)"

text \<open>
  Modelled from the spec: \<^verbatim>\<open>V.fromLinePosition\<close> (\<^verbatim>\<open>common/vector.ts\<close>, not
  among the sources), the \<^verbatim>\<open>V.Line\<close> of a line position: its two end points and
  the vector from the source to the target.
\<close>

definition fromLinePosition :: "LinePosition \<Rightarrow> VLine" where
  "fromLinePosition p =
     \<lparr>ln_source = (x1 p, y1 p), ln_target = (x2 p, y2 p),
      ln_v = vec_subtract (x2 p, y2 p) (x1 p, y1 p)\<rparr>"

text \<open>
  Modelled from the spec: \<^verbatim>\<open>V.getCenterOfLinePosition\<close> (\<^verbatim>\<open>common/vector.ts\<close>,
  not among the sources), the midpoint of a line position.
\<close>

definition getCenterOfLinePosition :: "LinePosition \<Rightarrow> vec" where
  "getCenterOfLinePosition p = ((x1 p + x2 p) / 2, (y1 p + y2 p) / 2)"

text \<open>
  Modelled from the spec: \<^verbatim>\<open>V.fromVectors\<close> (\<^verbatim>\<open>common/vector.ts\<close>, not among
  the sources), the vector from the first point to the second (``circle-center to
  origin.source'').
\<close>

definition fromVectors :: "vec \<Rightarrow> vec \<Rightarrow> vec" where
  "fromVectors a b = vec_subtract b a"

text \<open>
  Modelled from the spec: \<^verbatim>\<open>V.fromPositions\<close> (\<^verbatim>\<open>common/vector.ts\<close>, not
  among the sources), \<^verbatim>\<open>V.fromVectors\<close> for two positions.
\<close>

definition fromPositions :: "vec \<Rightarrow> vec \<Rightarrow> vec" where
  "fromPositions a b = vec_subtract b a"

text \<open>
  Modelled from the spec: \<^verbatim>\<open>v2d.positionsToLinePosition\<close> (\<^verbatim>\<open>common/2d.ts\<close>,
  not among the sources), the line position from the first point to the second.
\<close>

definition positionsToLinePosition :: "vec \<Rightarrow> vec \<Rightarrow> LinePosition" where
  "positionsToLinePosition p q = \<lparr>x1 = fst p, y1 = snd p, x2 = fst q, y2 = snd q\<rparr>"

text \<open>
  Modelled from the spec: \<^verbatim>\<open>V.toVectorsFromLinePosition\<close> (\<^verbatim>\<open>common/vector.ts\<close>,
  not among the sources), the two end points of a line position.
\<close>

definition toVectorsFromLinePosition :: "LinePosition \<Rightarrow> vec \<times> vec" where
  "toVectorsFromLinePosition p = ((x1 p, y1 p), (x2 p, y2 p))"

text \<open>
  Modelled from the spec: \<^verbatim>\<open>v2d.inverseLine\<close> (\<^verbatim>\<open>common/2d.ts\<close>, not among the
  sources), the line position with its end points swapped (``inverted (endpoints
  swapped)'').
\<close>

definition inverseLine :: "LinePosition \<Rightarrow> LinePosition" where
  "inverseLine p = \<lparr>x1 = x2 p, y1 = y2 p, x2 = x1 p, y2 = y1 p\<rparr>"

section \<open>Edge geometry (\<^verbatim>\<open>composables/state.ts\<close>)\<close>

text \<open>
  The tail of \<^verbatim>\<open>calculateCurvePositionAndState\<close> (``Calculate the control/via points
  of a Bezier curve''), reached from the two places that fall through to it.
\<close>

definition curveResult ::
  "geometry \<Rightarrow> LinePosition \<Rightarrow> vec \<Rightarrow> real \<Rightarrow> vec \<Rightarrow> real \<Rightarrow> LinePosition \<times> Curve option" where
  "curveResult G position center radius shiftedCenter theta0 =
     (let (p1, p2) = toVectorsFromLinePosition position;
          control = calculateBezierCurveControlPoint G p1 center p2 theta0
      in (position,
          Some \<lparr>cv_center = shiftedCenter, cv_theta = theta0,
                cv_circle = \<lparr>circ_center = center, circ_radius = radius\<rparr>,
                cv_control = control\<rparr>))"

text \<open>
  \<^verbatim>\<open>calculateCurvePositionAndState\<close>, statement by statement. The first component of
  the result lists the invocations of \<^verbatim>\<open>V.calculateCircleCenterAndRadiusBy3Points\<close>
  with their arguments, in the order in which the function makes them; the second
  component is the returned pair. The reassigned \<^verbatim>\<open>theta1\<close> and
  \<^verbatim>\<open>theta2\<close> are \<open>theta1'\<close> and \<open>theta2'\<close>.
\<close>

definition calculateCurvePositionAndState_traced ::
  "geometry \<Rightarrow> LinePosition \<Rightarrow> LinePosition \<Rightarrow> real \<Rightarrow> real \<Rightarrow> real
     \<Rightarrow> (vec \<times> vec \<times> vec) list \<times> (LinePosition \<times> Curve option)" where
  "calculateCurvePositionAndState_traced G originPosition shiftedPosition shift
       sourceMargin targetMargin =
     (let origin = fromLinePosition originPosition;
          shifted = fromLinePosition shiftedPosition;
          shiftedCenter = getCenterOfLinePosition shiftedPosition;
          (center, radius) =
             calculateCircleCenterAndRadiusBy3Points G
               (ln_source origin) (ln_target origin) shiftedCenter
      in ([(ln_source origin, ln_target origin, shiftedCenter)],
          if shift = 0 then
            (if sourceMargin = 0 \<and> targetMargin = 0 then originPosition
             else applyMarginToLine G originPosition sourceMargin targetMargin,
             None)
          else
            (let centerToTop = fromVectors center shiftedCenter;
                 theta0 = calculateRelativeAngleRadian G
                            (fromVectors center (ln_source origin)) centerToTop
             in if sourceMargin = 0 \<and> targetMargin = 0 then
                  curveResult G originPosition center radius shiftedCenter theta0
                else
                  (let sourceMoveRad =
                         (if theta0 > 0 then (sourceMargin / radius) * (- 1)
                          else sourceMargin / radius);
                       targetMoveRad =
                         (if theta0 > 0 then (targetMargin / radius) * (- 1)
                          else targetMargin / radius);
                       position = positionsToLinePosition
                         (moveOnCircumference G (ln_source origin) center sourceMoveRad)
                         (moveOnCircumference G (ln_target origin) center (- targetMoveRad));
                       theta1 = calculateRelativeAngleRadian G
                         (fromVectors center (ln_source origin))
                         (fromVectors center (ln_target origin));
                       theta2 = calculateRelativeAngleRadian G
                         (fromPositions center (x1 position, y1 position))
                         (fromPositions center (x2 position, y2 position));
                       theta1' = (if theta0 * theta1 < 0 then reverseAngleRadian G theta1
                                  else theta1);
                       theta2' = (if theta0 * theta1 < 0 \<and> theta0 * theta2 < 0
                                  then reverseAngleRadian G theta2 else theta2)
                   in if theta1' * theta2' < 0 then
                        (let c = vec_add shiftedCenter
                                   (multiplyScalar (normalize_vec G (ln_v shifted)) 0.5)
                         in (positionsToLinePosition shiftedCenter c, None))
                      else curveResult G position center radius shiftedCenter theta0))))"

definition calculateCurvePositionAndState ::
  "geometry \<Rightarrow> LinePosition \<Rightarrow> LinePosition \<Rightarrow> real \<Rightarrow> real \<Rightarrow> real
     \<Rightarrow> LinePosition \<times> Curve option" where
  "calculateCurvePositionAndState G originPosition shiftedPosition shift
       sourceMargin targetMargin =
     snd (calculateCurvePositionAndState_traced G originPosition shiftedPosition shift
            sourceMargin targetMargin)"

text \<open>
  The condition under which \<^verbatim>\<open>calculateCurvePositionAndState\<close> enters its
  ``reversed'' branch, given that the shift is not zero: some margin is not zero, and the
  angle between the two end points seen from the circle center changes its sign when the
  margins are applied (both angles first brought to the rotation sense of \<open>theta0\<close>).
\<close>

definition marginsReverseEndpoints ::
  "geometry \<Rightarrow> LinePosition \<Rightarrow> LinePosition \<Rightarrow> real \<Rightarrow> real \<Rightarrow> bool" where
  "marginsReverseEndpoints G originPosition shiftedPosition sourceMargin targetMargin =
     (let source = (x1 originPosition, y1 originPosition);
          target = (x2 originPosition, y2 originPosition);
          top = getCenterOfLinePosition shiftedPosition;
          center = fst (calculateCircleCenterAndRadiusBy3Points G source target top);
          radius = snd (calculateCircleCenterAndRadiusBy3Points G source target top);
          theta0 = calculateRelativeAngleRadian G
                     (fromVectors center source) (fromVectors center top);
          sign = (if theta0 > 0 then - 1 else 1);
          movedSource = moveOnCircumference G source center (sign * (sourceMargin / radius));
          movedTarget = moveOnCircumference G target center (- (sign * (targetMargin / radius)));
          before = calculateRelativeAngleRadian G
                     (fromVectors center source) (fromVectors center target);
          after = calculateRelativeAngleRadian G
                     (fromVectors center movedSource) (fromVectors center movedTarget);
          flip = (theta0 * before < 0)
      in \<not> (sourceMargin = 0 \<and> targetMargin = 0)
         \<and> (if flip then reverseAngleRadian G before else before)
             * (if flip \<and> theta0 * after < 0 then reverseAngleRadian G after else after) < 0)"

text \<open>
  The margins of lines 460 to 487 of \<^verbatim>\<open>createEdgeState\<close>: the marker margins, scaled
  by the stroke width for \<^verbatim>\<open>strokeWidth\<close> units, then the configured margin and the
  shape margins.
\<close>

definition markerMargin :: "Line \<Rightarrow> MarkerStyle \<Rightarrow> real" where
  "markerMargin l marker =
     (if mk_type marker \<noteq> HeadNone then
        (if mk_units marker = StrokeWidth
         then (mk_margin marker + mk_width marker) * line_normalWidth l
         else mk_margin marker + mk_width marker)
      else 0)"

definition edgeMargins :: "EdgeConfig \<Rightarrow> Line \<Rightarrow> real \<Rightarrow> real \<Rightarrow> real \<times> real" where
  "edgeMargins config l sourceShapeMargin targetShapeMargin =
     (let sourceMargin = markerMargin l (line_source l);
          targetMargin = markerMargin l (line_target l)
      in case cfg_margin config of
           None \<Rightarrow>
             (if mk_type (line_source l) \<noteq> HeadNone \<or> mk_type (line_target l) \<noteq> HeadNone
              then (sourceMargin + sourceShapeMargin, targetMargin + targetShapeMargin)
              else (sourceMargin, targetMargin))
         | Some m \<Rightarrow>
             (sourceMargin + (m + sourceShapeMargin), targetMargin + (m + targetShapeMargin)))"

text \<open>The resolved label style of a node (\<^verbatim>\<open>NodeLabelStyle\<close>), in the fields the model reads.\<close>

record NodeLabelStyle =
  nl_visible :: bool
  nl_margin :: real
  nl_text :: string

datatype Selectable = SelBool bool | SelNumber real

text \<open>
  \<^verbatim>\<open>NodeStateDatum\<close>. Each computed field holds the value the computed last
  returned; \<open>None\<close> is \<^verbatim>\<open>undefined\<close>, the value before its first evaluation.
\<close>

record NodeState =
  ns_shape :: "ShapeStyle option"
  ns_staticShape :: "ShapeStyle option"
  ns_label :: "NodeLabelStyle option"
  ns_labelText :: "string option"
  ns_selected :: bool
  ns_hovered :: bool
  ns_draggable :: "bool option"
  ns_selectable :: "Selectable option"

text \<open>
  The callback of the first \<^verbatim>\<open>watchEffect\<close> of \<^verbatim>\<open>createEdgeState\<close> (its
  stop handle is \<^verbatim>\<open>stopCalcHandle\<close>), as a function from the edge state before
  the run to the edge state after it. It reads the edge map, the node positions
  (\<^verbatim>\<open>layouts\<close>), the node states, the edge's layout point and summarized flag, the
  scale, the edge configuration and the value \<open>l\<close> of the computed \<^verbatim>\<open>line\<close>.
  Each \<^verbatim>\<open>return\<close> without a value leaves the state as it was. The lookups are
  those of own properties, which are the lookups of the code for every identifier that is
  a key of the object or is not a name that \<^verbatim>\<open>Object.prototype\<close> defines.
\<close>

definition edgeCalcEffect ::
  "geometry \<Rightarrow> EdgeConfig \<Rightarrow> (string \<rightharpoonup> 'e Edge_scheme) \<Rightarrow> (string \<rightharpoonup> vec)
     \<Rightarrow> (string \<rightharpoonup> 'n NodeState_scheme) \<Rightarrow> EdgeLayoutPoint \<Rightarrow> bool \<Rightarrow> real \<Rightarrow> Line
     \<Rightarrow> string \<Rightarrow> 's EdgeState_scheme \<Rightarrow> 's EdgeState_scheme" where
  "edgeCalcEffect G config edges layouts nodeStates edgeLayoutPoint isEdgeSummarized scale l
       edgeId state =
     (case edges edgeId of
        None \<Rightarrow> state
      | Some edge \<Rightarrow>
         (case (layouts (edge_source edge), layouts (edge_target edge),
                Option.bind (nodeStates (edge_source edge)) ns_staticShape,
                Option.bind (nodeStates (edge_target edge)) ns_staticShape) of
            (Some source, Some target, Some sourceShape, Some targetShape) \<Rightarrow>
              (let shiftedPosition =
                     calculateEdgeShiftedPosition G edgeLayoutPoint isEdgeSummarized
                       source target scale (cfg_keepOrder config);
                   (sourceShapeMargin, targetShapeMargin) =
                     calculateDistancesFromCenterOfNodeToEndOfNode G
                       source target sourceShape targetShape;
                   s = scale;
                   state1 = state\<lparr>es_labelPosition :=
                              applyMarginToLine G shiftedPosition
                                (sourceShapeMargin * s) (targetShapeMargin * s)\<rparr>;
                   (sourceMargin, targetMargin) =
                     edgeMargins config l sourceShapeMargin targetShapeMargin
               in if cfg_type config = TypeStraight then
                    (let state2 = state1\<lparr>es_origin := shiftedPosition, es_curve := None\<rparr>
                     in if sourceMargin = 0 \<and> targetMargin = 0
                        then state2\<lparr>es_position := es_origin state2\<rparr>
                        else state2\<lparr>es_position :=
                               applyMarginToLine G (es_origin state2)
                                 (sourceMargin * s) (targetMargin * s)\<rparr>)
                  else
                    (let state2 = state1\<lparr>es_origin := positionsToLinePosition source target\<rparr>;
                         shift = lp_groupWidth edgeLayoutPoint / 2
                                   - lp_pointInGroup edgeLayoutPoint;
                         (position, curve) =
                           calculateCurvePositionAndState G (es_origin state2) shiftedPosition
                             shift (sourceMargin * s) (targetMargin * s)
                     in state2\<lparr>es_position := position, es_curve := curve\<rparr>))
          | _ \<Rightarrow> state))"

section \<open>Node states (\<^verbatim>\<open>createNodeState\<close>)\<close>

text \<open>
  \<^verbatim>\<open>CallableValue<V, T>\<close> of \<^verbatim>\<open>common/configs.ts\<close>: a literal or a function
  of the target, with \<^verbatim>\<open>Config.value\<close>. A \<^verbatim>\<open>CallableValues\<close> object is the
  record of its callable fields, and \<^verbatim>\<open>Config.values\<close> resolves every field (when
  no field is a function the object is returned as it is, which is the same record).
\<close>

datatype ('v, 't) CallableValue = Literal 'v | Callable "'t \<Rightarrow> 'v"

definition Config_value :: "('v, 't) CallableValue \<Rightarrow> 't \<Rightarrow> 'v" where
  "Config_value v target = (case v of Callable f \<Rightarrow> f target | Literal c \<Rightarrow> c)"

text \<open>
  A node is its property bag. The target that the node getters hand to
  \<^verbatim>\<open>Config.value\<close> is what the lookup \<^verbatim>\<open>nodes.value[id]\<close> found: a node of
  the map, or a value inherited from \<^verbatim>\<open>Object.prototype\<close>.
\<close>

type_synonym Node = "string \<rightharpoonup> string"

record CallableShapeStyle =
  csh_type :: "(ShapeType, Node property) CallableValue"
  csh_radius :: "(real, Node property) CallableValue"
  csh_width :: "(real, Node property) CallableValue"
  csh_height :: "(real, Node property) CallableValue"

record CallableNodeLabelStyle =
  cnl_visible :: "(bool, Node property) CallableValue"
  cnl_margin :: "(real, Node property) CallableValue"
  cnl_text :: "(string, Node property) CallableValue"

definition Config_values_shape :: "CallableShapeStyle \<Rightarrow> Node property \<Rightarrow> ShapeStyle" where
  "Config_values_shape v target =
     \<lparr>sh_type = Config_value (csh_type v) target, sh_radius = Config_value (csh_radius v) target,
      sh_width = Config_value (csh_width v) target,
      sh_height = Config_value (csh_height v) target\<rparr>"

definition Config_values_label ::
  "CallableNodeLabelStyle \<Rightarrow> Node property \<Rightarrow> NodeLabelStyle" where
  "Config_values_label v target =
     \<lparr>nl_visible = Config_value (cnl_visible v) target,
      nl_margin = Config_value (cnl_margin v) target,
      nl_text = Config_value (cnl_text v) target\<rparr>"

record NodeConfig =
  nc_normal :: CallableShapeStyle
  nc_hover :: "CallableShapeStyle option"
  nc_selected :: "CallableShapeStyle option"
  nc_draggable :: "(bool, Node property) CallableValue"
  nc_selectable :: "(Selectable, Node property) CallableValue"
  nc_label :: CallableNodeLabelStyle

definition getNodeStaticShape :: "Node property \<Rightarrow> bool \<Rightarrow> NodeConfig \<Rightarrow> ShapeStyle" where
  "getNodeStaticShape node selected config =
     (case nc_selected config of
        Some sel \<Rightarrow> (if selected then Config_values_shape sel node
                     else Config_values_shape (nc_normal config) node)
      | None \<Rightarrow> Config_values_shape (nc_normal config) node)"

definition getNodeShape ::
  "Node property \<Rightarrow> bool \<Rightarrow> bool \<Rightarrow> NodeConfig \<Rightarrow> ShapeStyle" where
  "getNodeShape node selected hovered config =
     (case nc_hover config of
        Some hov \<Rightarrow> (if hovered then Config_values_shape hov node
                     else getNodeStaticShape node selected config)
      | None \<Rightarrow> getNodeStaticShape node selected config)"

text \<open>
  The getters of the six computed fields. Inside its own getter,
  \<^verbatim>\<open>unref(state.shape)\<close> is the value the computed returned last (the field of
  \<open>state\<close>). The test \<^verbatim>\<open>!nodes.value[id]\<close> is a lookup through the prototype
  chain: it succeeds when the lookup finds nothing, and for an identifier that names a
  property of \<^verbatim>\<open>Object.prototype\<close> the getter goes on with the inherited value as
  the node. A thrown \<^verbatim>\<open>TypeError\<close> is the left summand.
\<close>

datatype error = TypeError

definition computed_shape ::
  "NodeConfig \<Rightarrow> (string \<rightharpoonup> Node) \<Rightarrow> string \<Rightarrow> 'n NodeState_scheme \<Rightarrow> ShapeStyle option" where
  "computed_shape config nodes nodeId state =
     (case getProperty nodes nodeId of
        None \<Rightarrow> ns_shape state
      | Some node \<Rightarrow> Some (getNodeShape node (ns_selected state) (ns_hovered state) config))"

definition computed_staticShape ::
  "NodeConfig \<Rightarrow> (string \<rightharpoonup> Node) \<Rightarrow> string \<Rightarrow> 'n NodeState_scheme \<Rightarrow> ShapeStyle option" where
  "computed_staticShape config nodes nodeId state =
     (case getProperty nodes nodeId of
        None \<Rightarrow> ns_staticShape state
      | Some node \<Rightarrow> Some (getNodeStaticShape node (ns_selected state) config))"

definition computed_label ::
  "NodeConfig \<Rightarrow> (string \<rightharpoonup> Node) \<Rightarrow> string \<Rightarrow> 'n NodeState_scheme \<Rightarrow> NodeLabelStyle option" where
  "computed_label config nodes nodeId state =
     (case getProperty nodes nodeId of
        None \<Rightarrow> ns_label state
      | Some node \<Rightarrow> Some (Config_values_label (nc_label config) node))"

text \<open>
  \<^verbatim>\<open>nodes.value[id]?.[key]\<close>, the text that the node holds under \<open>key\<close>. For a
  value inherited from \<^verbatim>\<open>Object.prototype\<close> it is a property of that value (of the
  function \<^verbatim>\<open>Object.prototype.toString\<close>, say), which \<open>protoText\<close> gives from the
  name of the inherited value and the key.
\<close>

definition nodeText ::
  "(string \<Rightarrow> string \<Rightarrow> string option) \<Rightarrow> Node property \<Rightarrow> string \<Rightarrow> string option" where
  "nodeText protoText node key =
     (case node of Own bag \<Rightarrow> bag key | Inherited name \<Rightarrow> protoText name key)"

text \<open>
  In the getter of \<^verbatim>\<open>labelText\<close>, \<^verbatim>\<open>unref(state.label)\<close> is the current value
  of the computed \<^verbatim>\<open>label\<close>, that is what the getter of \<^verbatim>\<open>label\<close> returns;
  reading \<^verbatim>\<open>.text\<close> of \<^verbatim>\<open>undefined\<close> throws.
\<close>

definition computed_labelText ::
  "(string \<Rightarrow> string \<Rightarrow> string option) \<Rightarrow> NodeConfig \<Rightarrow> (string \<rightharpoonup> Node) \<Rightarrow> string
     \<Rightarrow> 'n NodeState_scheme \<Rightarrow> error + string option" where
  "computed_labelText protoText config nodes nodeId state =
     (case cnl_text (nc_label config) of
        Callable f \<Rightarrow>
          (case computed_label config nodes nodeId state of
             None \<Rightarrow> Inl TypeError
           | Some label \<Rightarrow> Inr (Some (nl_text label)))
      | Literal c \<Rightarrow>
          (case getProperty nodes nodeId of
             None \<Rightarrow> Inr (ns_labelText state)
           | Some node \<Rightarrow>
               (case computed_label config nodes nodeId state of
                  None \<Rightarrow> Inl TypeError
                | Some label \<Rightarrow>
                    Inr (Some (case nodeText protoText node (nl_text label) of
                                 Some t \<Rightarrow> t
                               | None \<Rightarrow> '''')))))"

definition computed_draggable ::
  "NodeConfig \<Rightarrow> (string \<rightharpoonup> Node) \<Rightarrow> string \<Rightarrow> 'n NodeState_scheme \<Rightarrow> bool option" where
  "computed_draggable config nodes nodeId state =
     (case getProperty nodes nodeId of
        None \<Rightarrow> ns_draggable state
      | Some node \<Rightarrow> Some (Config_value (nc_draggable config) node))"

definition computed_selectable ::
  "NodeConfig \<Rightarrow> (string \<rightharpoonup> Node) \<Rightarrow> string \<Rightarrow> 'n NodeState_scheme \<Rightarrow> Selectable option" where
  "computed_selectable config nodes nodeId state =
     (case getProperty nodes nodeId of
        None \<Rightarrow> ns_selectable state
      | Some node \<Rightarrow> Some (Config_value (nc_selectable config) node))"

section \<open>Summarized edge states (\<^verbatim>\<open>createSummarizedEdgeStates\<close>)\<close>

text \<open>
  The two objects are association lists of their own properties in insertion order. An
  assignment to a new key appends an entry, \<^verbatim>\<open>delete\<close> removes the entry. The state
  created for a group is \<open>mk grp\<close>, the object holding the computed stroke of the
  group's edges.
\<close>

record EdgeGroup =
  eg_summarize :: bool

text \<open>
  \<^verbatim>\<open>edgeGroupStates.edgeGroups[id]?.summarize\<close>, as a truth value. A value inherited
  from \<^verbatim>\<open>Object.prototype\<close> has no property \<^verbatim>\<open>summarize\<close>.
\<close>

definition isSummarizedGroup :: "(string \<times> 'g EdgeGroup_scheme) list \<Rightarrow> string \<Rightarrow> bool" where
  "isSummarizedGroup groups gid =
     (case getProperty (map_of groups) gid of
        Some (Own grp) \<Rightarrow> eg_summarize grp
      | Some (Inherited name) \<Rightarrow> False
      | None \<Rightarrow> False)"

text \<open>
  The filter \<^verbatim>\<open>group.summarize && !(id in summarizedEdgeStates)\<close> tests the
  identifier with \<^verbatim>\<open>in\<close>, which is also true of every name that the object
  inherits from \<^verbatim>\<open>Object.prototype\<close>.
\<close>

definition createSummarizedEdgeStates ::
  "('g EdgeGroup_scheme \<Rightarrow> 's) \<Rightarrow> (string \<times> 's) list \<Rightarrow> (string \<times> 'g EdgeGroup_scheme) list
     \<Rightarrow> (string \<times> 's) list" where
  "createSummarizedEdgeStates mk summarizedEdgeStates groups =
     (let created = filter (\<lambda>(gid, grp). eg_summarize grp
                              \<and> \<not> hasProperty (map_of summarizedEdgeStates) gid) groups;
          states1 = foldl (\<lambda>states (gid, grp). AList.update gid (mk grp) states)
                      summarizedEdgeStates created
      in foldl (\<lambda>states gid. if \<not> isSummarizedGroup groups gid
                             then AList.delete gid states else states)
           states1 (map fst states1))"

section \<open>Path points (\<^verbatim>\<open>_calculatePathPoints\<close>)\<close>

text \<open>
  \<^verbatim>\<open>EdgeLine\<close> of the path component, and an element of the result: a point, an
  array of points (control points followed by points of the path), or
  \<^verbatim>\<open>undefined\<close>, which \<^verbatim>\<open>points[0][0]\<close> is for an empty array.
\<close>

record EdgeLine =
  el_edgeId :: string
  el_source :: string
  el_target :: string
  el_line :: VLine
  el_curve :: "Curve option"

datatype pathPoint = Pt vec | Arr "vec list" | Undefined

datatype PathEndType = CenterOfNode | EdgeOfNode

text \<open>\<^verbatim>\<open>const EPSILON = Number.EPSILON * 100\<close>, with \<^verbatim>\<open>Number.EPSILON\<close> = 2^-52.\<close>

definition EPSILON :: real where
  "EPSILON = 100 / 2 ^ 52"

definition getNodeRadius :: "'s ShapeStyle_scheme \<Rightarrow> real" where
  "getNodeRadius shape =
     (if sh_type shape = ShapeCircle then sh_radius shape
      else min (sh_width shape) (sh_height shape) / 2)"

definition getEdgeLine :: "'e EdgeObject \<Rightarrow> bool \<Rightarrow> 's EdgeState_scheme \<Rightarrow> EdgeLine" where
  "getEdgeLine edge direction state =
     (let position = (if \<not> direction then inverseLine (es_origin state) else es_origin state);
          source = (if \<not> direction then edge_target (eo_edge edge)
                    else edge_source (eo_edge edge));
          target = (if \<not> direction then edge_source (eo_edge edge)
                    else edge_target (eo_edge edge));
          curve = (if \<not> direction
                   then map_option (\<lambda>c. c\<lparr>cv_theta := - cv_theta c\<rparr>) (es_curve state)
                   else es_curve state)
      in \<lparr>el_edgeId = eo_edgeId edge, el_source = source, el_target = target,
          el_line = fromLinePosition position, el_curve = curve\<rparr>)"

text \<open>
  \<^verbatim>\<open>_getSlope\<close>. The quotient is not finite exactly when the divisor
  \<^verbatim>\<open>pos.target.x - pos.source.x\<close> is zero (an infinity or NaN); the callers only
  test it with \<^verbatim>\<open>isFinite\<close> and compare differences, so \<open>None\<close> stands for every
  non-finite value.
\<close>

definition getSlope :: "VLine \<Rightarrow> real option" where
  "getSlope pos =
     (if fst (ln_target pos) - fst (ln_source pos) = 0 then None
      else Some ((snd (ln_target pos) - snd (ln_source pos))
                 / (fst (ln_target pos) - fst (ln_source pos))))"

definition getIntersectionOfLines :: "geometry \<Rightarrow> EdgeLine \<Rightarrow> EdgeLine \<Rightarrow> vec \<Rightarrow> vec option" where
  "getIntersectionOfLines G prev next nodePos =
     (case el_curve prev of
        Some prevCurve \<Rightarrow>
          (case el_curve next of
             Some nextCurve \<Rightarrow>
               (if ln_target (el_line prev) = ln_source (el_line next)
                then Some (ln_target (el_line prev))
                else getIntersectionOfCircles G
                       (circ_center (cv_circle prevCurve)) (circ_radius (cv_circle prevCurve))
                       (circ_center (cv_circle nextCurve)) (circ_radius (cv_circle nextCurve))
                       (cv_center prevCurve))
           | None \<Rightarrow>
               getIntersectionOfLineTargetAndCircle2 G
                 (ln_target (el_line next)) (ln_source (el_line next))
                 (circ_center (cv_circle prevCurve)) (circ_radius (cv_circle prevCurve))
                 nodePos)
      | None \<Rightarrow>
          (case el_curve next of
             Some nextCurve \<Rightarrow>
               getIntersectionOfLineTargetAndCircle G
                 (ln_source (el_line prev)) (ln_target (el_line prev))
                 (circ_center (cv_circle nextCurve)) (circ_radius (cv_circle nextCurve))
           | None \<Rightarrow>
               (let prevSlope = getSlope (el_line prev);
                    nextSlope = getSlope (el_line next);
                    isParallel =
                      (case (prevSlope, nextSlope) of
                         (None, None) \<Rightarrow> True
                       | (Some a, Some b) \<Rightarrow> \<bar>a - b\<bar> < EPSILON
                       | _ \<Rightarrow> False)
                in if isParallel then None
                   else getIntersectionPointOfLines G (el_line prev) (el_line next))))"

definition getIntersectionOfLineAndNode ::
  "geometry \<Rightarrow> EdgeLine \<Rightarrow> vec \<Rightarrow> real \<Rightarrow> bool \<Rightarrow> vec option" where
  "getIntersectionOfLineAndNode G edge nodeCenter nodeRadius targetSide =
     (case el_curve edge of
        Some curve \<Rightarrow>
          getIntersectionOfCircles G nodeCenter nodeRadius
            (circ_center (cv_circle curve)) (circ_radius (cv_circle curve)) (cv_center curve)
      | None \<Rightarrow>
          getIntersectionOfLineTargetAndCircle G
            (if targetSide then ln_source (el_line edge) else ln_target (el_line edge))
            (if targetSide then ln_target (el_line edge) else ln_source (el_line edge))
            nodeCenter nodeRadius)"

text \<open>
  \<^verbatim>\<open>_calculateEdgeOfNode\<close>. \<^verbatim>\<open>V.Vector.fromObject(nodeLayouts[nodeId])\<close> reads
  the coordinates of its argument, so a node without a position makes it throw.
\<close>

definition calculateEdgeOfNode ::
  "geometry \<Rightarrow> EdgeLine \<Rightarrow> real \<Rightarrow> (string \<rightharpoonup> vec) \<Rightarrow> bool \<Rightarrow> error + vec" where
  "calculateEdgeOfNode G edge nodeRadius nodeLayouts direction =
     (let nodeId = (if direction then el_source edge else el_target edge)
      in case el_curve edge of
           Some curve \<Rightarrow>
             (let moveRad0 = nodeRadius / circ_radius (cv_circle curve);
                  moveRad1 = (if cv_theta curve > 0 then moveRad0 * (- 1) else moveRad0);
                  moveRad = (if \<not> direction then moveRad1 * (- 1) else moveRad1)
              in Inr (moveOnCircumference G
                        (if direction then ln_source (el_line edge) else ln_target (el_line edge))
                        (circ_center (cv_circle curve)) moveRad))
         | None \<Rightarrow>
             (let source = (if direction then ln_target (el_line edge)
                            else ln_source (el_line edge));
                  target = (if direction then ln_source (el_line edge)
                            else ln_target (el_line edge))
              in case nodeLayouts nodeId of
                   None \<Rightarrow> Inl TypeError
                 | Some center \<Rightarrow>
                     (case getIntersectionOfLineTargetAndCircle G source target center nodeRadius of
                        None \<Rightarrow> Inr source
                      | Some p \<Rightarrow> Inr p)))"

text \<open>
  Modelled from the spec: \<^verbatim>\<open>findFirstNonNull\<close> of \<^verbatim>\<open>common/utility.ts\<close> (not
  among the sources), called with two nullable points and a point: ``the core-circle
  crossings of each line (or fall back to the node-circle crossing, or the raw line
  endpoint)''.
\<close>

definition findFirstNonNull :: "vec option \<Rightarrow> vec option \<Rightarrow> vec \<Rightarrow> vec" where
  "findFirstNonNull a b c =
     (case a of Some p \<Rightarrow> p | None \<Rightarrow> (case b of Some q \<Rightarrow> q | None \<Rightarrow> c))"

text \<open>
  The scaled radius of a node's shape, \<^verbatim>\<open>_getNodeRadius(nodeStates[id].shape) * scale\<close>;
  it throws when the node has no state or the state no shape.
\<close>

definition scaledNodeRadius ::
  "(string \<rightharpoonup> 'n NodeState_scheme) \<Rightarrow> real \<Rightarrow> string \<Rightarrow> error + real" where
  "scaledNodeRadius nodeStates scale nodeId =
     (case Option.bind (nodeStates nodeId) ns_shape of
        None \<Rightarrow> Inl TypeError
      | Some shape \<Rightarrow> Inr (getNodeRadius shape * scale))"

text \<open>
  The body of the transit loop up to the choice of \<^verbatim>\<open>pos\<close> (``Calculate transit
  points in the node''). Every branch assigns an array of three points to
  \<^verbatim>\<open>pos\<close>: a transit point, the control point, a transit point; \<^verbatim>\<open>pos\<close> is
  that triple.
\<close>

definition transitPos ::
  "geometry \<Rightarrow> (string \<rightharpoonup> 'n NodeState_scheme) \<Rightarrow> (string \<rightharpoonup> vec) \<Rightarrow> real
     \<Rightarrow> EdgeLine \<Rightarrow> EdgeLine \<Rightarrow> error + (vec \<times> vec \<times> vec)" where
  "transitPos G nodeStates nodeLayouts scale prev next =
     (let nodeId = el_source next;
          nodePos = (case nodeLayouts nodeId of Some p \<Rightarrow> p | None \<Rightarrow> (0, 0));
          crossPoint = getIntersectionOfLines G prev next nodePos
      in case scaledNodeRadius nodeStates scale nodeId of
           Inl e \<Rightarrow> Inl e
         | Inr nodeRadius \<Rightarrow>
            (let nodeCoreRadius = max (nodeRadius * (2 / 3)) (nodeRadius - 4 * scale);
                 prevCoreIp = getIntersectionOfLineAndNode G prev nodePos nodeCoreRadius True;
                 nextCoreIp = getIntersectionOfLineAndNode G next nodePos nodeCoreRadius False;
                 prevNodeIp = getIntersectionOfLineAndNode G prev nodePos nodeRadius True;
                 nextNodeIp = getIntersectionOfLineAndNode G next nodePos nodeRadius False
             in Inr
               (case crossPoint of
                  Some X \<Rightarrow>
                    (let d = calculateDistance G X nodePos
                     in if d < nodeCoreRadius then
                          (findFirstNonNull prevCoreIp prevNodeIp (ln_target (el_line prev)),
                           X,
                           findFirstNonNull nextCoreIp nextNodeIp (ln_source (el_line next)))
                        else if d \<le> nodeRadius then
                          (let p1 =
                                 (case (prevNodeIp, prevCoreIp) of
                                    (Some pn, Some pc) \<Rightarrow>
                                      (if calculateDistance G X pc < calculateDistance G X pn
                                       then pc else pn)
                                  | (Some pn, None) \<Rightarrow> pn
                                  | (None, _) \<Rightarrow> ln_target (el_line prev));
                               p2 =
                                 (case (nextNodeIp, nextCoreIp) of
                                    (Some nn, Some nc) \<Rightarrow>
                                      (if calculateDistance G X nc < calculateDistance G X nn
                                       then nc else nn)
                                  | (Some nn, None) \<Rightarrow> nn
                                  | (None, _) \<Rightarrow> ln_source (el_line next))
                           in (p1, X, p2))
                        else
                          (case (prevCoreIp, nextCoreIp) of
                             (Some pc, Some nc) \<Rightarrow> (pc, nodePos, nc)
                           | _ \<Rightarrow>
                             (case (prevNodeIp, nextNodeIp) of
                                (Some pn, Some nn) \<Rightarrow> (pn, nodePos, nn)
                              | _ \<Rightarrow>
                                (findFirstNonNull prevCoreIp prevNodeIp (ln_target (el_line prev)),
                                 nodePos,
                                 findFirstNonNull nextCoreIp nextNodeIp
                                   (ln_source (el_line next))))))
                | None \<Rightarrow>
                    (case (prevCoreIp, nextCoreIp) of
                       (Some pc, Some nc) \<Rightarrow> (pc, nodePos, nc)
                     | _ \<Rightarrow>
                       (case (prevNodeIp, nextNodeIp) of
                          (Some pn, Some nn) \<Rightarrow> (pn, nodePos, nn)
                        | _ \<Rightarrow> (ln_target (el_line prev), nodePos,
                                ln_source (el_line next)))))))"

text \<open>
  The last point of an element of \<^verbatim>\<open>points\<close>
  (\<^verbatim>\<open>x instanceof Array ? x[x.length - 1] : x\<close>); it is \<^verbatim>\<open>undefined\<close> for an
  empty array and for \<^verbatim>\<open>undefined\<close>, and the control-point helper, which reads its
  coordinates, then throws.
\<close>

definition lastPointOf :: "pathPoint \<Rightarrow> error + vec" where
  "lastPointOf x =
     (case x of
        Pt p \<Rightarrow> Inr p
      | Arr ps \<Rightarrow> (if ps = [] then Inl TypeError else Inr (last ps))
      | Undefined \<Rightarrow> Inl TypeError)"

text \<open>
  The rest of the loop body (``Specify points on the curve''): what is pushed for the
  triple \<^verbatim>\<open>pos\<close>. With a curved previous edge nothing is pushed when
  \<^verbatim>\<open>points\<close> is empty or ends in \<^verbatim>\<open>undefined\<close> (\<^verbatim>\<open>if (lastPoints)\<close>).
\<close>

definition pushTransit ::
  "geometry \<Rightarrow> bool \<Rightarrow> EdgeLine \<Rightarrow> EdgeLine \<Rightarrow> vec \<times> vec \<times> vec \<Rightarrow> pathPoint list
     \<Rightarrow> error + pathPoint list" where
  "pushTransit G curveInNode prev next pos points =
     (let p1 = fst pos; X = fst (snd pos); p2 = snd (snd pos)
      in case el_curve prev of
           Some prevCurve \<Rightarrow>
             (if points = [] \<or> last points = Undefined then Inr points
              else
                (case lastPointOf (last points) of
                   Inl e \<Rightarrow> Inl e
                 | Inr lastPoint \<Rightarrow>
                     (let nextPoint = (if curveInNode then p1 else X);
                          control = calculateBezierCurveControlPoint G lastPoint
                                      (circ_center (cv_circle prevCurve)) nextPoint
                                      (cv_theta prevCurve)
                      in if curveInNode then Inr (points @ [Arr (control @ [p1, X, p2])])
                         else Inr (points @ [Arr (control @ [nextPoint])]))))
         | None \<Rightarrow>
             (if curveInNode then Inr (points @ [Arr [p1, X, p2]])
              else if el_curve next \<noteq> None then Inr (points @ [Pt X])
              else Inr (points @ [Pt p1, Pt p2])))"

text \<open>
  The loop \<^verbatim>\<open>for (let i = 1; i < length; i++)\<close> over the consecutive pairs
  \<^verbatim>\<open>edgePos[i - 1]\<close>, \<^verbatim>\<open>edgePos[i]\<close>.
\<close>

fun transitLoop ::
  "geometry \<Rightarrow> (string \<rightharpoonup> 'n NodeState_scheme) \<Rightarrow> (string \<rightharpoonup> vec) \<Rightarrow> real \<Rightarrow> bool
     \<Rightarrow> EdgeLine list \<Rightarrow> pathPoint list \<Rightarrow> error + pathPoint list" where
  "transitLoop G nodeStates nodeLayouts scale curveInNode (prev # next # rest) points =
     (case transitPos G nodeStates nodeLayouts scale prev next of
        Inl e \<Rightarrow> Inl e
      | Inr pos \<Rightarrow>
          (case pushTransit G curveInNode prev next pos points of
             Inl e \<Rightarrow> Inl e
           | Inr points' \<Rightarrow>
               transitLoop G nodeStates nodeLayouts scale curveInNode (next # rest) points'))"
| "transitLoop G nodeStates nodeLayouts scale curveInNode edgePos points = Inr points"

text \<open>
  \<^verbatim>\<open>edges.map((edge, i) => _getEdgeLine(edge, directions[i], edgeStates[edge.edgeId]))\<close>:
  the edges paired with their directions (there is one direction for each edge); an
  edge without a state makes \<^verbatim>\<open>_getEdgeLine\<close> throw on \<^verbatim>\<open>state.origin\<close>.
\<close>

fun edgeLines ::
  "(string \<rightharpoonup> 's EdgeState_scheme) \<Rightarrow> ('e EdgeObject \<times> bool) list \<Rightarrow> error + EdgeLine list" where
  "edgeLines edgeStates [] = Inr []"
| "edgeLines edgeStates ((edge, direction) # rest) =
     (case edgeStates (eo_edgeId edge) of
        None \<Rightarrow> Inl TypeError
      | Some state \<Rightarrow>
          (case edgeLines edgeStates rest of
             Inl e \<Rightarrow> Inl e
           | Inr ls \<Rightarrow> Inr (getEdgeLine edge direction state # ls)))"

text \<open>
  ``Determine the starting point'': the pushed point and the value of
  \<^verbatim>\<open>isMarginOverRunStart\<close>.
\<close>

definition startPoint ::
  "geometry \<Rightarrow> (string \<rightharpoonup> 'n NodeState_scheme) \<Rightarrow> (string \<rightharpoonup> vec) \<Rightarrow> real \<Rightarrow> PathEndType
     \<Rightarrow> real \<Rightarrow> EdgeLine \<Rightarrow> error + (vec \<times> bool)" where
  "startPoint G nodeStates nodeLayouts scale pathEndType margin firstEdge =
     (case scaledNodeRadius nodeStates scale (el_source firstEdge) of
        Inl e \<Rightarrow> Inl e
      | Inr nodeRadius \<Rightarrow>
          (let lineMargin = margin + (if pathEndType = EdgeOfNode then nodeRadius else 0)
           in case (if lineMargin \<le> 0 then Inr (ln_source (el_line firstEdge))
                    else calculateEdgeOfNode G firstEdge lineMargin nodeLayouts True) of
                Inl e \<Rightarrow> Inl e
              | Inr nextPoint \<Rightarrow>
                  (case scaledNodeRadius nodeStates scale (el_target firstEdge) of
                     Inl e \<Rightarrow> Inl e
                   | Inr nodeRadius' \<Rightarrow>
                       Inr (nextPoint,
                            margin > 0
                            \<and> calculateDistance G (ln_source (el_line firstEdge))
                                  (ln_target (el_line firstEdge))
                                \<le> lineMargin + nodeRadius'))))"

text \<open>
  ``Determine the terminate point'': the points after the push and the value of
  \<^verbatim>\<open>isMarginOverRunEnd\<close>.
\<close>

definition endPoint ::
  "geometry \<Rightarrow> (string \<rightharpoonup> 'n NodeState_scheme) \<Rightarrow> (string \<rightharpoonup> vec) \<Rightarrow> real \<Rightarrow> PathEndType
     \<Rightarrow> real \<Rightarrow> EdgeLine \<Rightarrow> pathPoint list \<Rightarrow> error + (pathPoint list \<times> bool)" where
  "endPoint G nodeStates nodeLayouts scale pathEndType margin lastEdge points =
     (case scaledNodeRadius nodeStates scale (el_target lastEdge) of
        Inl e \<Rightarrow> Inl e
      | Inr nodeRadius \<Rightarrow>
          (let lineMargin = margin + (if pathEndType = EdgeOfNode then nodeRadius else 0)
           in case (if lineMargin \<le> 0 then Inr (ln_target (el_line lastEdge))
                    else calculateEdgeOfNode G lastEdge lineMargin nodeLayouts False) of
                Inl e \<Rightarrow> Inl e
              | Inr nextPoint \<Rightarrow>
                  (case scaledNodeRadius nodeStates scale (el_source lastEdge) of
                     Inl e \<Rightarrow> Inl e
                   | Inr nodeRadius' \<Rightarrow>
                       (let over = (margin > 0
                                    \<and> calculateDistance G (ln_source (el_line lastEdge))
                                          (ln_target (el_line lastEdge))
                                        \<le> lineMargin + nodeRadius')
                        in case el_curve lastEdge of
                             Some curve \<Rightarrow>
                               (case (if points = [] then Inl TypeError
                                      else lastPointOf (last points)) of
                                  Inl e \<Rightarrow> Inl e
                                | Inr lastPoint \<Rightarrow>
                                    (let control = calculateBezierCurveControlPoint G lastPoint
                                                     (circ_center (cv_circle curve)) nextPoint
                                                     (cv_theta curve)
                                     in Inr (points @ [Arr (control @ [nextPoint])], over)))
                           | None \<Rightarrow> Inr (points @ [Pt nextPoint], over)))))"

text \<open>
  The end of \<^verbatim>\<open>_calculatePathPoints\<close>: \<^verbatim>\<open>shift\<close> removes the first element,
  \<^verbatim>\<open>unshift(points[0][0])\<close> puts the first point of a leading array in front,
  \<^verbatim>\<open>pop\<close> removes the last element; on an empty array \<^verbatim>\<open>shift\<close> and
  \<^verbatim>\<open>pop\<close> do nothing.
\<close>

definition trimOverrun :: "bool \<Rightarrow> bool \<Rightarrow> pathPoint list \<Rightarrow> pathPoint list" where
  "trimOverrun isMarginOverRunStart isMarginOverRunEnd points =
     (let points1 =
            (if isMarginOverRunStart then
               (case tl points of
                  Arr ps # rest \<Rightarrow>
                    (case ps of [] \<Rightarrow> Undefined | q # qs \<Rightarrow> Pt q) # Arr ps # rest
                | shifted \<Rightarrow> shifted)
             else points)
      in if isMarginOverRunEnd then butlast points1 else points1)"

text \<open>
  \<^verbatim>\<open>_calculatePathPoints\<close> before its last two statements: the sequence of points as
  built, with the two overrun flags.
\<close>

definition pathPointsBuilt ::
  "geometry \<Rightarrow> ('p, 'e) PathObject \<Rightarrow> (string \<rightharpoonup> 'n NodeState_scheme) \<Rightarrow> (string \<rightharpoonup> vec)
     \<Rightarrow> (string \<rightharpoonup> 's EdgeState_scheme) \<Rightarrow> real \<Rightarrow> bool \<Rightarrow> PathEndType \<Rightarrow> real
     \<Rightarrow> error + (pathPoint list \<times> bool \<times> bool)" where
  "pathPointsBuilt G path nodeStates nodeLayouts edgeStates scale curveInNode pathEndType margin =
     (let edges = po_edges path;
          directions = detectDirectionsOfPathEdges edges
      in case edgeLines edgeStates (zip edges directions) of
           Inl e \<Rightarrow> Inl e
         | Inr edgePos \<Rightarrow>
            (if edgePos = [] then Inl TypeError
             else
               (case startPoint G nodeStates nodeLayouts scale pathEndType margin (hd edgePos) of
                  Inl e \<Rightarrow> Inl e
                | Inr (nextPoint, isMarginOverRunStart) \<Rightarrow>
                    (case transitLoop G nodeStates nodeLayouts scale curveInNode edgePos
                            [Pt nextPoint] of
                       Inl e \<Rightarrow> Inl e
                     | Inr points \<Rightarrow>
                         (case endPoint G nodeStates nodeLayouts scale pathEndType margin
                                 (last edgePos) points of
                            Inl e \<Rightarrow> Inl e
                          | Inr (points', isMarginOverRunEnd) \<Rightarrow>
                              Inr (points', isMarginOverRunStart, isMarginOverRunEnd))))))"

definition calculatePathPoints ::
  "geometry \<Rightarrow> ('p, 'e) PathObject \<Rightarrow> (string \<rightharpoonup> 'n NodeState_scheme) \<Rightarrow> (string \<rightharpoonup> vec)
     \<Rightarrow> (string \<rightharpoonup> 's EdgeState_scheme) \<Rightarrow> real \<Rightarrow> bool \<Rightarrow> PathEndType \<Rightarrow> real
     \<Rightarrow> error + pathPoint list" where
  "calculatePathPoints G path nodeStates nodeLayouts edgeStates scale curveInNode pathEndType
       margin =
     (case pathPointsBuilt G path nodeStates nodeLayouts edgeStates scale curveInNode
             pathEndType margin of
        Inl e \<Rightarrow> Inl e
      | Inr (points, isMarginOverRunStart, isMarginOverRunEnd) \<Rightarrow>
          Inr (trimOverrun isMarginOverRunStart isMarginOverRunEnd points))"

text \<open>
  The vocabulary of the claims about path points. The transit triple the spec describes
  for an intersection outside the node or no intersection: the core-circle crossings if
  both lines have one, else the node-circle crossings if both have one, else the raw line
  end points. The spec's overrun condition: the boundary offset meets or exceeds the
  source-to-target distance of the edge.
\<close>

definition specTransitOutside ::
  "vec option \<Rightarrow> vec option \<Rightarrow> vec option \<Rightarrow> vec option \<Rightarrow> vec \<Rightarrow> vec \<Rightarrow> vec
     \<Rightarrow> vec \<times> vec \<times> vec" where
  "specTransitOutside prevCoreIp nextCoreIp prevNodeIp nextNodeIp prevTarget nextSource nodePos =
     (case (prevCoreIp, nextCoreIp) of
        (Some pc, Some nc) \<Rightarrow> (pc, nodePos, nc)
      | _ \<Rightarrow>
        (case (prevNodeIp, nextNodeIp) of
           (Some pn, Some nn) \<Rightarrow> (pn, nodePos, nn)
         | _ \<Rightarrow> (prevTarget, nodePos, nextSource)))"

definition specOverrun :: "geometry \<Rightarrow> real \<Rightarrow> EdgeLine \<Rightarrow> bool" where
  "specOverrun G offset edge =
     (calculateDistance G (ln_source (el_line edge)) (ln_target (el_line edge)) \<le> offset)"

text \<open>An element that is a point or a non-empty array of points.\<close>

definition definedPoint :: "pathPoint \<Rightarrow> bool" where
  "definedPoint x = (case x of Pt p \<Rightarrow> True | Arr ps \<Rightarrow> ps \<noteq> [] | Undefined \<Rightarrow> False)"

section \<open>A reference geometry\<close>

text \<open>
  One instance of the helper record, used to run the model on concrete inputs. Its
  functions are written from the descriptions of sections 4.1 to 4.3 of the spec with the
  textbook formulas. The general theorems hold for every instance.
\<close>

text \<open>
  Modelled from the spec: \<^verbatim>\<open>length\<close> of \<^verbatim>\<open>V.Vector\<close>
  (\<^verbatim>\<open>common/vector.ts\<close>, not among the sources): the Euclidean length.
\<close>

definition spec_length :: "vec \<Rightarrow> real" where
  "spec_length a = sqrt (fst a * fst a + snd a * snd a)"

text \<open>
  Modelled from the spec: \<^verbatim>\<open>V.calculateDistance\<close> (\<^verbatim>\<open>common/vector.ts\<close>, not
  among the sources): the Euclidean distance of two points.
\<close>

definition spec_calculateDistance :: "vec \<Rightarrow> vec \<Rightarrow> real" where
  "spec_calculateDistance a b = spec_length (vec_subtract a b)"

text \<open>
  Modelled from the spec: \<^verbatim>\<open>normalize\<close> of \<^verbatim>\<open>V.Vector\<close> (not among the
  sources): the vector divided by its length (``the shift vector normalized'').
\<close>

definition spec_normalize :: "vec \<Rightarrow> vec" where
  "spec_normalize a = (fst a / spec_length a, snd a / spec_length a)"

text \<open>
  Modelled from the spec: \<^verbatim>\<open>V.calculateCircleCenterAndRadiusBy3Points\<close> (not among
  the sources): ``circumcircle of three points''. For collinear points the divisor is
  \<open>0\<close>, where JavaScript yields a non-finite center.
\<close>

definition spec_calculateCircleCenterAndRadiusBy3Points :: "vec \<Rightarrow> vec \<Rightarrow> vec \<Rightarrow> vec \<times> real" where
  "spec_calculateCircleCenterAndRadiusBy3Points p1 p2 p3 =
     (let a1 = fst p1; b1 = snd p1; a2 = fst p2; b2 = snd p2; a3 = fst p3; b3 = snd p3;
          d = 2 * (a1 * (b2 - b3) + a2 * (b3 - b1) + a3 * (b1 - b2));
          q1 = a1 * a1 + b1 * b1; q2 = a2 * a2 + b2 * b2; q3 = a3 * a3 + b3 * b3;
          center = ((q1 * (b2 - b3) + q2 * (b3 - b1) + q3 * (b1 - b2)) / d,
                    (q1 * (a3 - a2) + q2 * (a1 - a3) + q3 * (a2 - a1)) / d)
      in (center, spec_calculateDistance center p1))"

text \<open>
  Modelled from the spec: \<^verbatim>\<open>Math.atan2\<close>, the angle in (-pi, pi] of the point
  with abscissa \<open>a\<close> and ordinate \<open>b\<close>.
\<close>

definition spec_atan2 :: "real \<Rightarrow> real \<Rightarrow> real" where
  "spec_atan2 b a =
     (if a > 0 then arctan (b / a)
      else if a < 0 then (if b \<ge> 0 then arctan (b / a) + pi else arctan (b / a) - pi)
      else if b > 0 then pi / 2
      else if b < 0 then - (pi / 2)
      else 0)"

text \<open>
  Modelled from the spec: \<^verbatim>\<open>V.calculateRelativeAngleRadian\<close>
  (\<^verbatim>\<open>common/vector.ts\<close>, not among the sources): ``signed radians in (-pi, pi]''
  between two vectors. The spec leaves the sense of a positive angle open; here it is the
  sense that turns the second vector onto the first.
\<close>

definition spec_calculateRelativeAngleRadian :: "vec \<Rightarrow> vec \<Rightarrow> real" where
  "spec_calculateRelativeAngleRadian a b =
     spec_atan2 (snd a * fst b - fst a * snd b) (fst a * fst b + snd a * snd b)"

text \<open>
  Modelled from the spec: \<^verbatim>\<open>v2d.moveOnCircumference\<close> (not among the sources):
  ``rotate point about center by a signed angle''.
\<close>

definition spec_moveOnCircumference :: "vec \<Rightarrow> vec \<Rightarrow> real \<Rightarrow> vec" where
  "spec_moveOnCircumference p center a =
     (let dx = fst p - fst center; dy = snd p - snd center
      in (dx * cos a - dy * sin a + fst center, dx * sin a + dy * cos a + snd center))"

text \<open>
  Modelled from the spec: \<^verbatim>\<open>v2d.reverseAngleRadian\<close> (not among the sources): the
  same direction measured the other way round the circle.
\<close>

definition spec_reverseAngleRadian :: "real \<Rightarrow> real" where
  "spec_reverseAngleRadian t = (if t > 0 then - (2 * pi - t) else 2 * pi + t)"

text \<open>
  Modelled from the spec: \<^verbatim>\<open>v2d.applyMarginToLine\<close> (not among the sources): each
  end point moved along the line towards the other end by its margin.
\<close>

definition spec_applyMarginToLine :: "LinePosition \<Rightarrow> real \<Rightarrow> real \<Rightarrow> LinePosition" where
  "spec_applyMarginToLine p sourceMargin targetMargin =
     (let u = spec_normalize (ln_v (fromLinePosition p))
      in positionsToLinePosition
           (vec_add (x1 p, y1 p) (multiplyScalar u sourceMargin))
           (vec_subtract (x2 p, y2 p) (multiplyScalar u targetMargin)))"

text \<open>
  Modelled from the spec: \<^verbatim>\<open>EdgeGroup.calculateEdgeShiftedPosition\<close>
  (\<^verbatim>\<open>common/edge-group.ts\<close>, not among the sources): ``origin laterally displaced by
  the group offset, perpendicular to the source-to-target direction, scaled by zoom
  scale''; the edges of a summarized group are drawn as one line, on the origin.
\<close>

definition spec_calculateEdgeShiftedPosition ::
  "EdgeLayoutPoint \<Rightarrow> bool \<Rightarrow> vec \<Rightarrow> vec \<Rightarrow> real \<Rightarrow> EdgeKeepOrderType \<Rightarrow> LinePosition" where
  "spec_calculateEdgeShiftedPosition lp isEdgeSummarized source target scale keepOrder =
     (if isEdgeSummarized then positionsToLinePosition source target
      else
        (let offset = (lp_pointInGroup lp - lp_groupWidth lp / 2) * scale;
             u = spec_normalize (vec_subtract target source);
             n = (- snd u, fst u)
         in positionsToLinePosition (vec_add source (multiplyScalar n offset))
                                    (vec_add target (multiplyScalar n offset))))"

text \<open>
  Modelled from the spec: the shape margin of one node, ``distance from node center to the
  node's visual boundary along the line direction (circle: radius; rectangle: boundary
  intersection with the line)''.
\<close>

definition spec_distanceToEndOfNode :: "vec \<Rightarrow> ShapeStyle \<Rightarrow> real" where
  "spec_distanceToEndOfNode d shape =
     (if sh_type shape = ShapeCircle then sh_radius shape
      else if fst d = 0 then sh_height shape / 2
      else if snd d = 0 then sh_width shape / 2
      else min (sh_width shape / 2 * spec_length d / \<bar>fst d\<bar>)
               (sh_height shape / 2 * spec_length d / \<bar>snd d\<bar>))"

text \<open>
  Modelled from the spec: \<^verbatim>\<open>v2d.calculateDistancesFromCenterOfNodeToEndOfNode\<close>
  (\<^verbatim>\<open>common/2d.ts\<close>, not among the sources): the shape margins of the source
  node and of the target node along the line between them.
\<close>

definition spec_calculateDistancesFromCenterOfNodeToEndOfNode ::
  "vec \<Rightarrow> vec \<Rightarrow> ShapeStyle \<Rightarrow> ShapeStyle \<Rightarrow> real \<times> real" where
  "spec_calculateDistancesFromCenterOfNodeToEndOfNode source target sourceShape targetShape =
     (spec_distanceToEndOfNode (vec_subtract target source) sourceShape,
      spec_distanceToEndOfNode (vec_subtract target source) targetShape)"

text \<open>
  Modelled from the spec: \<^verbatim>\<open>v2d.calculateBezierCurveControlPoint\<close> (not among the
  sources): ``two cubic-Bezier control points approximating the arc from start to end on
  the circle centered at circleCenter, using theta to determine curvature direction and
  magnitude via a fixed control-point distance ratio (kappa) scaled by |theta|''. The
  control points lie on the tangents at the two end points.
\<close>

definition spec_calculateBezierCurveControlPoint :: "vec \<Rightarrow> vec \<Rightarrow> vec \<Rightarrow> real \<Rightarrow> vec list" where
  "spec_calculateBezierCurveControlPoint start circleCenter finish theta =
     (let kappa = 4 / 3 * (sqrt 2 - 1);
          k = kappa * \<bar>theta\<bar> * (if theta > 0 then 1 else - 1);
          rs = vec_subtract start circleCenter;
          re = vec_subtract finish circleCenter
      in [vec_add start (multiplyScalar (snd rs, - fst rs) k),
          vec_subtract finish (multiplyScalar (snd re, - fst re) k)])"

text \<open>
  Modelled from the spec: \<^verbatim>\<open>V.getIntersectionPointOfLines\<close> (not among the
  sources): the intersection of the two infinite lines, ``null when lines are parallel''.
\<close>

definition spec_getIntersectionPointOfLines :: "VLine \<Rightarrow> VLine \<Rightarrow> vec option" where
  "spec_getIntersectionPointOfLines l1 l2 =
     (let det = fst (ln_v l1) * snd (ln_v l2) - snd (ln_v l1) * fst (ln_v l2);
          w = vec_subtract (ln_source l2) (ln_source l1);
          k = (fst w * snd (ln_v l2) - snd w * fst (ln_v l2)) / det
      in if det = 0 then None
         else Some (vec_add (ln_source l1) (multiplyScalar (ln_v l1) k)))"

text \<open>
  Modelled from the spec: the two intersections of a line and a circle. The point
  \<open>source + k * (target - source)\<close> lies on the circle for the two roots \<open>k\<close> of a
  quadratic equation; the smaller root is the intersection nearer the source side, the
  larger one the far intersection; without a real root the line does not meet the circle.
\<close>

definition spec_lineCircle :: "bool \<Rightarrow> vec \<Rightarrow> vec \<Rightarrow> vec \<Rightarrow> real \<Rightarrow> vec option" where
  "spec_lineCircle far source target center radius =
     (let v = vec_subtract target source;
          w = vec_subtract source center;
          a = fst v * fst v + snd v * snd v;
          b = 2 * (fst v * fst w + snd v * snd w);
          c = fst w * fst w + snd w * snd w - radius * radius;
          disc = b * b - 4 * a * c;
          k = (if far then (- b + sqrt disc) / (2 * a) else (- b - sqrt disc) / (2 * a))
      in if a = 0 \<or> disc < 0 then None
         else Some (vec_add source (multiplyScalar v k)))"

text \<open>
  Modelled from the spec: \<^verbatim>\<open>V.getIntersectionOfLineTargetAndCircle\<close>
  (\<^verbatim>\<open>common/vector.ts\<close>, not among the sources): ``intersection of the
  ray/segment nearest source-side with a circle; returns null if the line does not meet
  the circle''.
\<close>

definition spec_getIntersectionOfLineTargetAndCircle ::
  "vec \<Rightarrow> vec \<Rightarrow> vec \<Rightarrow> real \<Rightarrow> vec option" where
  "spec_getIntersectionOfLineTargetAndCircle source target center radius =
     spec_lineCircle False source target center radius"

text \<open>
  Modelled from the spec: \<^verbatim>\<open>V.getIntersectionOfLineTargetAndCircle2\<close>
  (\<^verbatim>\<open>common/vector.ts\<close>, not among the sources): ``a second variant biases toward
  the far intersection''.
\<close>

definition spec_getIntersectionOfLineTargetAndCircle2 ::
  "vec \<Rightarrow> vec \<Rightarrow> vec \<Rightarrow> real \<Rightarrow> vec \<Rightarrow> vec option" where
  "spec_getIntersectionOfLineTargetAndCircle2 source target center radius nearBy =
     spec_lineCircle True source target center radius"

text \<open>
  Modelled from the spec: \<^verbatim>\<open>V.getIntersectionOfCircles\<close> (not among the sources):
  ``one of up to two intersection points, selecting the one nearer biasPoint; null if
  circles do not intersect (including tangency)''.
\<close>

definition spec_getIntersectionOfCircles ::
  "vec \<Rightarrow> real \<Rightarrow> vec \<Rightarrow> real \<Rightarrow> vec \<Rightarrow> vec option" where
  "spec_getIntersectionOfCircles c1 r1 c2 r2 biasPoint =
     (let d = spec_calculateDistance c1 c2;
          a = (r1 * r1 - r2 * r2 + d * d) / (2 * d);
          h = sqrt (r1 * r1 - a * a);
          u = multiplyScalar (vec_subtract c2 c1) (1 / d);
          m = vec_add c1 (multiplyScalar u a);
          p = vec_add m (multiplyScalar (- snd u, fst u) h);
          q = vec_subtract m (multiplyScalar (- snd u, fst u) h)
      in if d = 0 \<or> d \<ge> r1 + r2 \<or> d \<le> \<bar>r1 - r2\<bar> then None
         else if spec_calculateDistance p biasPoint \<le> spec_calculateDistance q biasPoint
         then Some p else Some q)"

text \<open>
  Modelled from the spec: the helper modules \<^verbatim>\<open>common/vector.ts\<close>,
  \<^verbatim>\<open>common/2d.ts\<close> and \<^verbatim>\<open>common/edge-group.ts\<close> (not among the sources),
  as the record of the functions above.
\<close>

definition specGeometry :: geometry where
  "specGeometry =
     \<lparr>calculateEdgeShiftedPosition = spec_calculateEdgeShiftedPosition,
      calculateDistancesFromCenterOfNodeToEndOfNode =
        spec_calculateDistancesFromCenterOfNodeToEndOfNode,
      applyMarginToLine = spec_applyMarginToLine,
      calculateCircleCenterAndRadiusBy3Points = spec_calculateCircleCenterAndRadiusBy3Points,
      calculateRelativeAngleRadian = spec_calculateRelativeAngleRadian,
      moveOnCircumference = spec_moveOnCircumference,
      reverseAngleRadian = spec_reverseAngleRadian,
      calculateBezierCurveControlPoint = spec_calculateBezierCurveControlPoint,
      normalize_vec = spec_normalize,
      calculateDistance = spec_calculateDistance,
      getIntersectionOfLineTargetAndCircle = spec_getIntersectionOfLineTargetAndCircle,
      getIntersectionOfLineTargetAndCircle2 = spec_getIntersectionOfLineTargetAndCircle2,
      getIntersectionOfCircles = spec_getIntersectionOfCircles,
      getIntersectionPointOfLines = spec_getIntersectionPointOfLines\<rparr>"

text \<open>
  The vocabulary of the claims about the edge curve: a stub centered at \<open>c\<close> with
  half-length \<open>h\<close> along the direction \<open>d\<close>, and three collinear points.
\<close>

definition centeredStub :: "LinePosition \<Rightarrow> vec \<Rightarrow> vec \<Rightarrow> real \<Rightarrow> bool" where
  "centeredStub p c d h =
     (p = positionsToLinePosition (vec_subtract c (multiplyScalar d h))
                                  (vec_add c (multiplyScalar d h)))"

definition collinear3 :: "vec \<Rightarrow> vec \<Rightarrow> vec \<Rightarrow> bool" where
  "collinear3 p q r =
     ((fst q - fst p) * (snd r - snd p) - (snd q - snd p) * (fst r - fst p) = 0)"

section \<open>A small scene for running the model\<close>

text \<open>
  Nodes drawn as circles, an edge line without markers, and a node state whose shapes
  have been computed.
\<close>

definition ex_circle :: "real \<Rightarrow> ShapeStyle" where
  "ex_circle r = \<lparr>sh_type = ShapeCircle, sh_radius = r, sh_width = 0, sh_height = 0\<rparr>"

definition ex_nodeState :: "real \<Rightarrow> NodeState" where
  "ex_nodeState r =
     \<lparr>ns_shape = Some (ex_circle r), ns_staticShape = Some (ex_circle r), ns_label = None,
      ns_labelText = None, ns_selected = False, ns_hovered = False, ns_draggable = None,
      ns_selectable = None\<rparr>"

definition ex_noMarker :: MarkerStyle where
  "ex_noMarker =
     \<lparr>mk_type = HeadNone, mk_width = 0, mk_height = 0, mk_margin = 0, mk_units = StrokeWidth\<rparr>"

definition ex_line :: Line where
  "ex_line = \<lparr>line_normalWidth = 1, line_source = ex_noMarker, line_target = ex_noMarker\<rparr>"

definition ex_edgeState :: EdgeState where
  "ex_edgeState =
     \<lparr>es_origin = \<lparr>x1 = 0, y1 = 0, x2 = 0, y2 = 0\<rparr>,
      es_labelPosition = \<lparr>x1 = 0, y1 = 0, x2 = 0, y2 = 0\<rparr>,
      es_position = \<lparr>x1 = 0, y1 = 0, x2 = 0, y2 = 0\<rparr>,
      es_curve = None\<rparr>"

definition ex_edge :: Edge where
  "ex_edge = \<lparr>edge_source = ''a'', edge_target = ''b''\<rparr>"

definition ex_edges :: "string \<rightharpoonup> Edge" where
  "ex_edges = [''e1'' \<mapsto> ex_edge]"

definition ex_layouts :: "string \<rightharpoonup> vec" where
  "ex_layouts = [''a'' \<mapsto> (0, 0), ''b'' \<mapsto> (2, 0)]"

definition ex_nodeStates :: "string \<rightharpoonup> NodeState" where
  "ex_nodeStates = [''a'' \<mapsto> ex_nodeState 1, ''b'' \<mapsto> ex_nodeState 1]"

text \<open>
  A node configuration with literal shapes; the label text is the parameter: a literal
  names the node property that holds the text, a function computes the text.
\<close>

definition ex_shapeConfig :: CallableShapeStyle where
  "ex_shapeConfig =
     \<lparr>csh_type = Literal ShapeCircle, csh_radius = Literal 1, csh_width = Literal 0,
      csh_height = Literal 0\<rparr>"

definition ex_showLabel :: "Node property \<Rightarrow> bool" where
  "ex_showLabel node =
     (case node of Own bag \<Rightarrow> bag ''showLabel'' = Some ''yes'' | Inherited name \<Rightarrow> False)"

definition ex_nodeConfig :: "(string, Node property) CallableValue \<Rightarrow> NodeConfig" where
  "ex_nodeConfig text =
     \<lparr>nc_normal = ex_shapeConfig, nc_hover = None, nc_selected = None,
      nc_draggable = Literal True, nc_selectable = Literal (SelBool True),
      nc_label = \<lparr>cnl_visible = Callable ex_showLabel,
                  cnl_margin = Literal 4, cnl_text = text\<rparr>\<rparr>"

text \<open>
  The properties of the values inherited from \<^verbatim>\<open>Object.prototype\<close>, read as text:
  an inherited function has its name under \<^verbatim>\<open>name\<close> (\<^verbatim>\<open>Object\<close> for the
  constructor), the prototype object has none.
\<close>

definition ex_protoText :: "string \<Rightarrow> string \<Rightarrow> string option" where
  "ex_protoText name key =
     (if key \<noteq> ''name'' \<or> name = ''__proto__'' then None
      else if name = ''constructor'' then Some ''Object''
      else Some name)"

text \<open>The function \<^verbatim>\<open>node => node.name ?? ""\<close>.\<close>

definition ex_nameOf :: "Node property \<Rightarrow> string" where
  "ex_nameOf node =
     (case node of
        Own bag \<Rightarrow> (case bag ''name'' of Some t \<Rightarrow> t | None \<Rightarrow> '''')
      | Inherited name \<Rightarrow> (case ex_protoText name ''name'' of Some t \<Rightarrow> t | None \<Rightarrow> ''''))"

text \<open>
  A node state in which \<^verbatim>\<open>label\<close> was evaluated after \<^verbatim>\<open>labelText\<close>: the
  label was last computed for the node data \<^verbatim>\<open>{name: "a", showLabel: "no"}\<close>, the
  label text was last read when the data were \<^verbatim>\<open>{name: "b", showLabel: "yes"}\<close>
  (a label that is not visible is not drawn, so its text is not read).
\<close>

definition ex_staleNodeState :: NodeState where
  "ex_staleNodeState =
     (ex_nodeState 1)
       \<lparr>ns_label := Some \<lparr>nl_visible = False, nl_margin = 4, nl_text = ''a''\<rparr>,
        ns_labelText := Some ''b''\<rparr>"

text \<open>
  A transit node \<^verbatim>\<open>n\<close> at \<open>(0, 0)\<close> with radius \<open>3\<close> (core radius \<open>2\<close>). The
  incoming line comes straight up to the node center; the outgoing line belongs to a
  straight edge that is shifted sideways by \<open>5\<close> and passes the node at distance \<open>5\<close>.
\<close>

definition ex_prev :: EdgeLine where
  "ex_prev =
     \<lparr>el_edgeId = ''e1'', el_source = ''a'', el_target = ''n'',
      el_line = fromLinePosition \<lparr>x1 = 0, y1 = - 10, x2 = 0, y2 = 0\<rparr>, el_curve = None\<rparr>"

definition ex_next :: EdgeLine where
  "ex_next =
     \<lparr>el_edgeId = ''e2'', el_source = ''n'', el_target = ''b'',
      el_line = fromLinePosition \<lparr>x1 = 0, y1 = 5, x2 = 10, y2 = 5\<rparr>, el_curve = None\<rparr>"

definition ex_transitStates :: "string \<rightharpoonup> NodeState" where
  "ex_transitStates = [''n'' \<mapsto> ex_nodeState 3]"

definition ex_transitLayouts :: "string \<rightharpoonup> vec" where
  "ex_transitLayouts = [''n'' \<mapsto> (0, 0)]"

text \<open>
  A path of the single straight edge \<^verbatim>\<open>e1\<close> between the nodes \<^verbatim>\<open>a\<close> at
  \<open>(0, 0)\<close> and \<^verbatim>\<open>b\<close> at \<open>(10, 0)\<close>, both circles of radius \<open>3\<close>.
\<close>

definition ex_path :: "(unit, unit) PathObject" where
  "ex_path =
     \<lparr>po_path = \<lparr>path_edges = [''e1'']\<rparr>,
      po_edges = [\<lparr>eo_edgeId = ''e1'', eo_edge = ex_edge\<rparr>]\<rparr>"

definition ex_pathStates :: "string \<rightharpoonup> NodeState" where
  "ex_pathStates = [''a'' \<mapsto> ex_nodeState 3, ''b'' \<mapsto> ex_nodeState 3]"

definition ex_pathLayouts :: "string \<rightharpoonup> vec" where
  "ex_pathLayouts = [''a'' \<mapsto> (0, 0), ''b'' \<mapsto> (10, 0)]"

definition ex_pathEdgeStates :: "string \<rightharpoonup> EdgeState" where
  "ex_pathEdgeStates =
     [''e1'' \<mapsto> \<lparr>es_origin = \<lparr>x1 = 0, y1 = 0, x2 = 10, y2 = 0\<rparr>,
                 es_labelPosition = \<lparr>x1 = 3, y1 = 0, x2 = 7, y2 = 0\<rparr>,
                 es_position = \<lparr>x1 = 0, y1 = 0, x2 = 10, y2 = 0\<rparr>,
                 es_curve = None\<rparr>]"

section \<open>Properties of the path list\<close>

lemma getProperty_eq_None_iff: "getProperty obj key = None \<longleftrightarrow> \<not> hasProperty obj key"
  by (simp add: getProperty_def hasProperty_def split: option.splits)

lemma getProperty_own:
  "key \<notin> set objectPrototypeNames \<Longrightarrow> getProperty obj key = map_option Own (obj key)"
  by (simp add: getProperty_def split: option.splits)

lemma resolveEdges_length_le: "length (resolveEdges edges ids) \<le> length ids"
  by (simp add: resolveEdges_def map_filter_def)

lemma resolveEdges_all_found:
  "\<forall>i\<in>set ids. hasProperty edges i \<Longrightarrow>
   resolveEdges edges ids = map (\<lambda>i. \<lparr>ee_edgeId = i, ee_edge = the (getProperty edges i)\<rparr>) ids"
proof (induction ids)
  case Nil
  then show ?case by (simp add: resolveEdges_def map_filter_def)
next
  case (Cons i ids)
  from Cons.prems obtain v where v: "getProperty edges i = Some v"
    using getProperty_eq_None_iff [of edges i] by auto
  from Cons.prems have "\<forall>i\<in>set ids. hasProperty edges i" by simp
  from Cons.IH [OF this] v show ?case by (simp add: resolveEdges_def map_filter_def)
qed

lemma resolveEdges_unknown_shorter:
  "\<not> (\<forall>i\<in>set ids. hasProperty edges i) \<Longrightarrow> length (resolveEdges edges ids) < length ids"
proof (induction ids)
  case Nil
  then show ?case by simp
next
  case (Cons i ids)
  show ?case
  proof (cases "getProperty edges i")
    case None
    have "length (resolveEdges edges ids) \<le> length ids" by (rule resolveEdges_length_le)
    moreover from None have "resolveEdges edges (i # ids) = resolveEdges edges ids"
      by (simp add: resolveEdges_def map_filter_def)
    ultimately show ?thesis by simp
  next
    case (Some v)
    then have "hasProperty edges i" using getProperty_eq_None_iff [of edges i] by simp
    with Cons.prems have "\<not> (\<forall>i\<in>set ids. hasProperty edges i)" by auto
    from Cons.IH [OF this] Some show ?thesis by (simp add: resolveEdges_def map_filter_def)
  qed
qed

lemma resolveEdges_length_iff:
  "length (resolveEdges edges ids) = length ids \<longleftrightarrow> (\<forall>i\<in>set ids. hasProperty edges i)"
proof
  assume "length (resolveEdges edges ids) = length ids"
  then show "\<forall>i\<in>set ids. hasProperty edges i"
    using resolveEdges_unknown_shorter [of ids edges] by force
next
  assume "\<forall>i\<in>set ids. hasProperty edges i"
  then show "length (resolveEdges edges ids) = length ids"
    by (simp add: resolveEdges_all_found)
qed

lemma pathList_loop_eq:
  "pathList_loop edges list paths =
     list @ map (\<lambda>p. \<lparr>pe_path = p,
                      pe_edges = map (\<lambda>i. \<lparr>ee_edgeId = i, ee_edge = the (getProperty edges i)\<rparr>)
                                   (path_edges p)\<rparr>)
                (filter (\<lambda>p. \<forall>i\<in>set (path_edges p). hasProperty edges i) paths)"
proof (induction paths arbitrary: list)
  case Nil
  then show ?case by simp
next
  case (Cons p paths)
  show ?case
  proof (cases "\<forall>i\<in>set (path_edges p). hasProperty edges i")
    case True
    then show ?thesis
      by (simp add: Cons.IH resolveEdges_length_iff resolveEdges_all_found Let_def)
  next
    case False
    then show ?thesis
      by (simp add: Cons.IH resolveEdges_length_iff Let_def)
  qed
qed

text \<open>
  What \<^verbatim>\<open>pathList\<close> computes: the input paths, in order, without the paths that name an
  identifier for which the lookup finds nothing; a path that stays is kept unchanged and is
  paired with what the lookup found for each of its identifiers.
\<close>

lemma pathList_eq:
  "pathList paths edges =
     map (\<lambda>p. \<lparr>pe_path = p,
               pe_edges = map (\<lambda>i. \<lparr>ee_edgeId = i, ee_edge = the (getProperty edges i)\<rparr>)
                            (path_edges p)\<rparr>)
         (filter (\<lambda>p. \<forall>i\<in>set (path_edges p). hasProperty edges i) paths)"
  by (simp add: pathList_def pathList_loop_eq)

text \<open>
  When no path names a property of \<^verbatim>\<open>Object.prototype\<close>, the paths that stay are the
  paths all of whose identifiers are keys of the edge map, each paired with all of its
  edges.
\<close>

lemma pathList_without_inherited_names:
  assumes "\<forall>p\<in>set paths. \<forall>i\<in>set (path_edges p). i \<notin> set objectPrototypeNames"
  shows "pathList paths edges =
     map (\<lambda>p. \<lparr>pe_path = p,
               pe_edges = map (\<lambda>i. \<lparr>ee_edgeId = i, ee_edge = Own (the (edges i))\<rparr>)
                            (path_edges p)\<rparr>)
         (filter (\<lambda>p. set (path_edges p) \<subseteq> dom edges) paths)"
proof -
  have keep: "filter (\<lambda>p. \<forall>i\<in>set (path_edges p). hasProperty edges i) paths
                = filter (\<lambda>p. set (path_edges p) \<subseteq> dom edges) paths"
    using assms by (intro filter_cong refl) (auto simp: hasProperty_def)
  have found: "the (getProperty edges i) = Own (the (edges i))"
    if "p \<in> set paths" "set (path_edges p) \<subseteq> dom edges" "i \<in> set (path_edges p)" for p i
  proof -
    from that assms have "i \<notin> set objectPrototypeNames" "i \<in> dom edges" by auto
    then show ?thesis by (auto simp: getProperty_own)
  qed
  show ?thesis unfolding pathList_eq keep
    by (intro map_cong refl) (auto simp: found)
qed

text \<open>
  Claim C1 asks that a path be left out of the renderable path list as soon as it names an
  identifier that is not in the edge map, as the comment of the code has it
  (\<^verbatim>\<open>reject a path includes unknown edge ID\<close>). Here the edge map holds the single edge
  \<^verbatim>\<open>e1\<close> and the path names \<^verbatim>\<open>e1\<close> and \<^verbatim>\<open>toString\<close>. The lookup
  \<^verbatim>\<open>props.edges["toString"]\<close> finds the function that every object inherits, the
  filter keeps the entry, the lengths agree, and the path is pushed, with that function as
  its second edge.
\<close>

theorem pathList_keeps_path_naming_inherited_property:
  "pathList [\<lparr>path_edges = [''e1'', ''toString'']\<rparr>]
            [''e1'' \<mapsto> \<lparr>edge_source = ''a'', edge_target = ''b''\<rparr>]
   = [\<lparr>pe_path = \<lparr>path_edges = [''e1'', ''toString'']\<rparr>,
       pe_edges = [\<lparr>ee_edgeId = ''e1'',
                    ee_edge = Own \<lparr>edge_source = ''a'', edge_target = ''b''\<rparr>\<rparr>,
                   \<lparr>ee_edgeId = ''toString'', ee_edge = Inherited ''toString''\<rparr>]\<rparr>]"
  by (simp add: pathList_def resolveEdges_def map_filter_def getProperty_def
      objectPrototypeNames_def)

section \<open>Properties of direction detection\<close>

lemma sort2_eq_iff:
  "(sort2 a b ! 0 = sort2 c d ! 0 \<and> sort2 a b ! 1 = sort2 c d ! 1)
     \<longleftrightarrow> ((a = c \<and> b = d) \<or> (a = d \<and> b = c))"
  by (auto simp: sort2_def)

lemma directionStep_length: "length (fst (directionStep edges st i)) = Suc (length (fst st))"
  by (simp add: directionStep_def Let_def)

lemma directionStep_prefix:
  "j < length (fst st) \<Longrightarrow> fst (directionStep edges st i) ! j = fst st ! j"
  by (simp add: directionStep_def Let_def nth_append)

lemma directionStep_lastNode:
  "snd (directionStep edges st i) =
     Some (nodeReached edges (fst (directionStep edges st i)) (length (fst st)))"
  if "i = length (fst st)"
  using that by (simp add: directionStep_def Let_def nodeReached_def nth_append)

lemma directionStep_later:
  "0 < i \<Longrightarrow> fst (directionStep edges st i) ! length (fst st)
     = (snd st = Some (edge_source (eo_edge (edges ! i))))"
  by (simp add: directionStep_def Let_def nth_append)

lemma nodeReached_prefix:
  "j < length ds \<Longrightarrow> nodeReached edges (ds @ es) j = nodeReached edges ds j"
  by (simp add: nodeReached_def nth_append)

lemma directionStep_append: "\<exists>b. fst (directionStep edges st i) = fst st @ [b]"
  by (simp add: directionStep_def Let_def)

lemma detect_fold_invariant:
  "foldl (directionStep edges) ([], None) [0..<n] = st \<Longrightarrow>
   length (fst st) = n
   \<and> (0 < n \<longrightarrow> snd st = Some (nodeReached edges (fst st) (n - 1)))
   \<and> (0 < n \<longrightarrow> fst st ! 0 = fst (directionStep edges ([], None) 0) ! 0)
   \<and> (\<forall>i. 0 < i \<and> i < n \<longrightarrow>
         fst st ! i = (edge_source (eo_edge (edges ! i)) = nodeReached edges (fst st) (i - 1)))"
proof (induction n arbitrary: st)
  case 0
  then show ?case by auto
next
  case (Suc n)
  define st0 where "st0 = foldl (directionStep edges) ([], None) [0..<n]"
  have ih: "length (fst st0) = n"
    "0 < n \<Longrightarrow> snd st0 = Some (nodeReached edges (fst st0) (n - 1))"
    "0 < n \<Longrightarrow> fst st0 ! 0 = fst (directionStep edges ([], None) 0) ! 0"
    "\<And>i. 0 < i \<Longrightarrow> i < n \<Longrightarrow>
       fst st0 ! i = (edge_source (eo_edge (edges ! i)) = nodeReached edges (fst st0) (i - 1))"
    using Suc.IH [of st0] by (simp_all add: st0_def)
  have st: "st = directionStep edges st0 n"
    using Suc.prems by (simp add: st0_def)
  obtain b where app: "fst st = fst st0 @ [b]"
    using directionStep_append [of edges st0 n] st by auto
  have len: "length (fst st) = Suc n"
    by (simp add: app ih(1))
  have last: "snd st = Some (nodeReached edges (fst st) n)"
    using directionStep_lastNode [of n st0 edges] ih(1) st by simp
  have first: "fst st ! 0 = fst (directionStep edges ([], None) 0) ! 0"
  proof (cases "n = 0")
    case True
    with ih(1) have "st0 = ([], snd st0)" by (cases st0) simp
    moreover have "fst (directionStep edges ([], snd st0) 0) = fst (directionStep edges ([], None) 0)"
      by (simp add: directionStep_def Let_def)
    ultimately show ?thesis using st True by metis
  next
    case False
    then show ?thesis using ih(1) ih(3) by (simp add: app nth_append)
  qed
  have later: "fst st ! i = (edge_source (eo_edge (edges ! i)) = nodeReached edges (fst st) (i - 1))"
    if "0 < i" "i < Suc n" for i
  proof (cases "i = n")
    case True
    have "fst st ! n = (snd st0 = Some (edge_source (eo_edge (edges ! n))))"
      using directionStep_later [of n edges st0] that True ih(1) st by simp
    moreover have "snd st0 = Some (nodeReached edges (fst st0) (n - 1))"
      using ih(2) that True by simp
    moreover have "nodeReached edges (fst st) (n - 1) = nodeReached edges (fst st0) (n - 1)"
      using that True ih(1) by (simp add: app nodeReached_prefix)
    ultimately show ?thesis using True by auto
  next
    case False
    with that have lt: "i < n" by simp
    have "fst st ! i = fst st0 ! i"
      using lt ih(1) by (simp add: app nth_append)
    moreover have "nodeReached edges (fst st) (i - 1) = nodeReached edges (fst st0) (i - 1)"
      using lt ih(1) by (simp add: app nodeReached_prefix)
    ultimately show ?thesis using ih(4) [OF that(1) lt] by simp
  qed
  show ?case using len last first later by simp
qed

text \<open>There is one direction for each edge of a non-empty path.\<close>

lemma detectDirections_length:
  "edges \<noteq> [] \<Longrightarrow> length (detectDirectionsOfPathEdges edges) = length edges"
proof (cases "length edges \<le> 1")
  case True
  moreover assume "edges \<noteq> []"
  ultimately have "length edges = 1"
    by (cases edges) auto
  with True show ?thesis
    by (simp add: detectDirectionsOfPathEdges_def)
next
  case False
  then show ?thesis
    using detect_fold_invariant [of edges "length edges"]
    by (simp add: detectDirectionsOfPathEdges_def)
qed

lemma directionStep_first_degenerate:
  assumes "2 < length edges"
    and "sameUnorderedPair (eo_edge (edges ! 0)) (eo_edge (edges ! 1))"
  shows "fst (directionStep edges ([], None) 0) ! 0 =
     (if edge_target (eo_edge (edges ! 1))
           \<in> {edge_source (eo_edge (edges ! 2)), edge_target (eo_edge (edges ! 2))}
      then edge_target (eo_edge (edges ! 0)) = edge_source (eo_edge (edges ! 1))
      else edge_target (eo_edge (edges ! 0)) = edge_target (eo_edge (edges ! 1)))"
proof -
  have "sort2 (edge_source (eo_edge (edges ! 0))) (edge_target (eo_edge (edges ! 0))) ! 0
          = sort2 (edge_source (eo_edge (edges ! 1))) (edge_target (eo_edge (edges ! 1))) ! 0
        \<and> sort2 (edge_source (eo_edge (edges ! 0))) (edge_target (eo_edge (edges ! 0))) ! 1
          = sort2 (edge_source (eo_edge (edges ! 1))) (edge_target (eo_edge (edges ! 1))) ! 1"
    using assms(2) unfolding sort2_eq_iff sameUnorderedPair_def .
  then show ?thesis
    using assms(1) by (simp add: directionStep_def Let_def)
qed

text \<open>
  Claim C6. For a path of at least three edges whose first two edges connect the identical
  unordered node pair, the detected directions are one per edge; edge 0 is forward iff,
  when the third edge's endpoints include edge 1's target (edge 1 taken as forward), its
  target equals edge 1's source, and otherwise (edge 1 taken as reverse) iff its target
  equals edge 1's target; and every later edge \<open>i \<ge> 1\<close> is forward iff its source is the
  node reached after traversing edge \<open>i - 1\<close> in its detected direction.
\<close>

theorem detectDirections_degenerate_opening:
  assumes "3 \<le> length edges"
    and "sameUnorderedPair (eo_edge (edges ! 0)) (eo_edge (edges ! 1))"
  shows "length (detectDirectionsOfPathEdges edges) = length edges
    \<and> detectDirectionsOfPathEdges edges ! 0 =
        (if edge_target (eo_edge (edges ! 1))
              \<in> {edge_source (eo_edge (edges ! 2)), edge_target (eo_edge (edges ! 2))}
         then edge_target (eo_edge (edges ! 0)) = edge_source (eo_edge (edges ! 1))
         else edge_target (eo_edge (edges ! 0)) = edge_target (eo_edge (edges ! 1)))
    \<and> (\<forall>i. 1 \<le> i \<and> i < length edges \<longrightarrow>
          detectDirectionsOfPathEdges edges ! i =
            (edge_source (eo_edge (edges ! i))
               = nodeReached edges (detectDirectionsOfPathEdges edges) (i - 1)))"
proof -
  define st where "st = foldl (directionStep edges) ([], None) [0..<length edges]"
  have ds: "detectDirectionsOfPathEdges edges = fst st"
    using assms(1) by (simp add: detectDirectionsOfPathEdges_def st_def)
  have inv: "length (fst st) = length edges"
    "fst st ! 0 = fst (directionStep edges ([], None) 0) ! 0"
    "\<And>i. 0 < i \<Longrightarrow> i < length edges \<Longrightarrow>
       fst st ! i = (edge_source (eo_edge (edges ! i)) = nodeReached edges (fst st) (i - 1))"
    using detect_fold_invariant [of edges "length edges" st] assms(1)
    by (auto simp: st_def)
  have first: "fst st ! 0 =
        (if edge_target (eo_edge (edges ! 1))
              \<in> {edge_source (eo_edge (edges ! 2)), edge_target (eo_edge (edges ! 2))}
         then edge_target (eo_edge (edges ! 0)) = edge_source (eo_edge (edges ! 1))
         else edge_target (eo_edge (edges ! 0)) = edge_target (eo_edge (edges ! 1)))"
    using directionStep_first_degenerate [of edges] assms inv(2) by simp
  show ?thesis
    unfolding ds using inv(1) first inv(3) by simp
qed

theorem detectDirections_degenerate_opening_witness:
  "3 \<le> length [\<lparr>eo_edgeId = ''e0'', eo_edge = \<lparr>edge_source = ''a'', edge_target = ''b''\<rparr>\<rparr>,
               \<lparr>eo_edgeId = ''e1'', eo_edge = \<lparr>edge_source = ''a'', edge_target = ''b''\<rparr>\<rparr>,
               \<lparr>eo_edgeId = ''e2'', eo_edge = \<lparr>edge_source = ''a'', edge_target = ''c''\<rparr>\<rparr>]
   \<and> sameUnorderedPair \<lparr>edge_source = ''a'', edge_target = ''b''\<rparr>
                       \<lparr>edge_source = ''a'', edge_target = ''b''\<rparr>
   \<and> detectDirectionsOfPathEdges
        [\<lparr>eo_edgeId = ''e0'', eo_edge = \<lparr>edge_source = ''a'', edge_target = ''b''\<rparr>\<rparr>,
         \<lparr>eo_edgeId = ''e1'', eo_edge = \<lparr>edge_source = ''a'', edge_target = ''b''\<rparr>\<rparr>,
         \<lparr>eo_edgeId = ''e2'', eo_edge = \<lparr>edge_source = ''a'', edge_target = ''c''\<rparr>\<rparr>] ! 0
     = True
   \<and> detectDirectionsOfPathEdges
        [\<lparr>eo_edgeId = ''e0'', eo_edge = \<lparr>edge_source = ''a'', edge_target = ''b''\<rparr>\<rparr>,
         \<lparr>eo_edgeId = ''e1'', eo_edge = \<lparr>edge_source = ''a'', edge_target = ''b''\<rparr>\<rparr>,
         \<lparr>eo_edgeId = ''e2'', eo_edge = \<lparr>edge_source = ''a'', edge_target = ''c''\<rparr>\<rparr>] ! 1
     = False"
  using detectDirections_degenerate_opening
    [of "[\<lparr>eo_edgeId = ''e0'', eo_edge = \<lparr>edge_source = ''a'', edge_target = ''b''\<rparr>\<rparr>,
          \<lparr>eo_edgeId = ''e1'', eo_edge = \<lparr>edge_source = ''a'', edge_target = ''b''\<rparr>\<rparr>,
          \<lparr>eo_edgeId = ''e2'', eo_edge = \<lparr>edge_source = ''a'', edge_target = ''c''\<rparr>\<rparr>]"]
  by (simp add: sameUnorderedPair_def nodeReached_def)

section \<open>Properties of the edge geometry\<close>

lemma specGeometry_simps [simp]:
  "calculateEdgeShiftedPosition specGeometry = spec_calculateEdgeShiftedPosition"
  "calculateDistancesFromCenterOfNodeToEndOfNode specGeometry =
     spec_calculateDistancesFromCenterOfNodeToEndOfNode"
  "applyMarginToLine specGeometry = spec_applyMarginToLine"
  "calculateCircleCenterAndRadiusBy3Points specGeometry =
     spec_calculateCircleCenterAndRadiusBy3Points"
  "calculateRelativeAngleRadian specGeometry = spec_calculateRelativeAngleRadian"
  "moveOnCircumference specGeometry = spec_moveOnCircumference"
  "reverseAngleRadian specGeometry = spec_reverseAngleRadian"
  "calculateBezierCurveControlPoint specGeometry = spec_calculateBezierCurveControlPoint"
  "normalize_vec specGeometry = spec_normalize"
  "calculateDistance specGeometry = spec_calculateDistance"
  "getIntersectionOfLineTargetAndCircle specGeometry = spec_getIntersectionOfLineTargetAndCircle"
  "getIntersectionOfLineTargetAndCircle2 specGeometry =
     spec_getIntersectionOfLineTargetAndCircle2"
  "getIntersectionOfCircles specGeometry = spec_getIntersectionOfCircles"
  "getIntersectionPointOfLines specGeometry = spec_getIntersectionPointOfLines"
  by (simp_all add: specGeometry_def)

lemma spec_circle_unit:
  "spec_calculateCircleCenterAndRadiusBy3Points (- 1, 0) (1, 0) (0, 1) = ((0, 0), 1)"
  by (simp add: spec_calculateCircleCenterAndRadiusBy3Points_def Let_def
      spec_calculateDistance_def spec_length_def vec_subtract_def)

lemma traced_calls:
  "fst (calculateCurvePositionAndState_traced G originPosition shiftedPosition shift sm tm) =
     [((x1 originPosition, y1 originPosition), (x2 originPosition, y2 originPosition),
       getCenterOfLinePosition shiftedPosition)]"
  by (simp add: calculateCurvePositionAndState_traced_def Let_def fromLinePosition_def
      split: prod.splits)

lemma calc_zero_shift:
  "calculateCurvePositionAndState G originPosition shiftedPosition 0 sm tm =
     (if sm = 0 \<and> tm = 0 then originPosition else applyMarginToLine G originPosition sm tm, None)"
  by (simp add: calculateCurvePositionAndState_def calculateCurvePositionAndState_traced_def
      Let_def split: prod.splits)

lemma calc_reversed:
  assumes "shift \<noteq> 0" "marginsReverseEndpoints G originPosition shiftedPosition sm tm"
  shows "calculateCurvePositionAndState G originPosition shiftedPosition shift sm tm =
     (positionsToLinePosition (getCenterOfLinePosition shiftedPosition)
        (vec_add (getCenterOfLinePosition shiftedPosition)
           (multiplyScalar (normalize_vec G (ln_v (fromLinePosition shiftedPosition))) 0.5)),
      None)"
  using assms
  by (auto simp add: calculateCurvePositionAndState_def calculateCurvePositionAndState_traced_def
      marginsReverseEndpoints_def Let_def fromLinePosition_def fromVectors_def fromPositions_def
      positionsToLinePosition_def
      split: prod.splits if_splits)

lemma calc_not_reversed:
  assumes "shift \<noteq> 0" "\<not> marginsReverseEndpoints G originPosition shiftedPosition sm tm"
  shows "\<exists>c. snd (calculateCurvePositionAndState G originPosition shiftedPosition shift sm tm)
               = Some c
    \<and> cv_circle c = \<lparr>circ_center = fst (calculateCircleCenterAndRadiusBy3Points G
          (x1 originPosition, y1 originPosition) (x2 originPosition, y2 originPosition)
          (getCenterOfLinePosition shiftedPosition)),
        circ_radius = snd (calculateCircleCenterAndRadiusBy3Points G
          (x1 originPosition, y1 originPosition) (x2 originPosition, y2 originPosition)
          (getCenterOfLinePosition shiftedPosition))\<rparr>"
  using assms
  by (auto simp add: calculateCurvePositionAndState_def calculateCurvePositionAndState_traced_def
      marginsReverseEndpoints_def Let_def fromLinePosition_def fromVectors_def fromPositions_def
      positionsToLinePosition_def curveResult_def
      split: prod.splits if_splits)

lemma calc_curve_iff:
  "snd (calculateCurvePositionAndState G originPosition shiftedPosition shift sm tm) \<noteq> None
     \<longleftrightarrow> shift \<noteq> 0 \<and> \<not> marginsReverseEndpoints G originPosition shiftedPosition sm tm"
proof (cases "shift = 0")
  case True
  then show ?thesis by (simp add: calc_zero_shift)
next
  case False
  show ?thesis
  proof (cases "marginsReverseEndpoints G originPosition shiftedPosition sm tm")
    case True
    with False show ?thesis by (simp add: calc_reversed)
  next
    case False
    with \<open>shift \<noteq> 0\<close> calc_not_reversed [of shift G originPosition shiftedPosition sm tm]
    show ?thesis by auto
  qed
qed

lemma calc_curve_circle:
  assumes "snd (calculateCurvePositionAndState G originPosition shiftedPosition shift sm tm)
             = Some c"
  shows "(circ_center (cv_circle c), circ_radius (cv_circle c)) =
     calculateCircleCenterAndRadiusBy3Points G
       (x1 originPosition, y1 originPosition) (x2 originPosition, y2 originPosition)
       (getCenterOfLinePosition shiftedPosition)"
proof -
  from assms calc_curve_iff [of G originPosition shiftedPosition shift sm tm]
  have "shift \<noteq> 0" "\<not> marginsReverseEndpoints G originPosition shiftedPosition sm tm"
    by auto
  from calc_not_reversed [OF this] assms show ?thesis by auto
qed

lemma edgeCalcEffect_present:
  assumes "edges edgeId = Some edge"
    and "layouts (edge_source edge) = Some source"
    and "layouts (edge_target edge) = Some target"
    and "Option.bind (nodeStates (edge_source edge)) ns_staticShape = Some sourceShape"
    and "Option.bind (nodeStates (edge_target edge)) ns_staticShape = Some targetShape"
  shows "edgeCalcEffect G config edges layouts nodeStates lp summarized scale l edgeId state =
     (let shifted = calculateEdgeShiftedPosition G lp summarized source target scale
                      (cfg_keepOrder config);
          shapeMargins = calculateDistancesFromCenterOfNodeToEndOfNode G
                           source target sourceShape targetShape;
          margins = edgeMargins config l (fst shapeMargins) (snd shapeMargins);
          labelPosition = applyMarginToLine G shifted
                            (fst shapeMargins * scale) (snd shapeMargins * scale)
      in if cfg_type config = TypeStraight then
           state\<lparr>es_labelPosition := labelPosition, es_origin := shifted, es_curve := None,
                 es_position := (if fst margins = 0 \<and> snd margins = 0 then shifted
                                 else applyMarginToLine G shifted
                                        (fst margins * scale) (snd margins * scale))\<rparr>
         else
           state\<lparr>es_labelPosition := labelPosition,
                 es_origin := positionsToLinePosition source target,
                 es_position :=
                   fst (calculateCurvePositionAndState G (positionsToLinePosition source target)
                          shifted (lp_groupWidth lp / 2 - lp_pointInGroup lp)
                          (fst margins * scale) (snd margins * scale)),
                 es_curve :=
                   snd (calculateCurvePositionAndState G (positionsToLinePosition source target)
                          shifted (lp_groupWidth lp / 2 - lp_pointInGroup lp)
                          (fst margins * scale) (snd margins * scale))\<rparr>)"
  using assms
  by (simp add: edgeCalcEffect_def Let_def split: prod.splits)

text \<open>
  Claim C2. After a run of the geometry computation that reaches the end (the edge, both
  node positions and both static shapes are present): with the edge type ``straight'' the
  curve is undefined; the curve is defined exactly when the edge type is ``curve'', the
  group shift \<open>groupWidth / 2 - pointInGroup\<close> is not zero and applying the margins did
  not lead into the endpoint-reversal branch; and a curve that is present carries the
  circle computed from the origin's source, the origin's target and the midpoint of the
  shifted position.
\<close>

theorem edge_curve_presence:
  assumes "edges edgeId = Some edge"
    and "layouts (edge_source edge) = Some source"
    and "layouts (edge_target edge) = Some target"
    and "Option.bind (nodeStates (edge_source edge)) ns_staticShape = Some sourceShape"
    and "Option.bind (nodeStates (edge_target edge)) ns_staticShape = Some targetShape"
  shows
    "let state' = edgeCalcEffect G config edges layouts nodeStates lp summarized scale l
                    edgeId state;
         shifted = calculateEdgeShiftedPosition G lp summarized source target scale
                     (cfg_keepOrder config);
         shapeMargins = calculateDistancesFromCenterOfNodeToEndOfNode G
                          source target sourceShape targetShape;
         margins = edgeMargins config l (fst shapeMargins) (snd shapeMargins);
         shift = lp_groupWidth lp / 2 - lp_pointInGroup lp
     in (cfg_type config = TypeStraight \<longrightarrow> es_curve state' = None)
      \<and> (es_curve state' \<noteq> None \<longleftrightarrow>
           cfg_type config = TypeCurve \<and> shift \<noteq> 0
           \<and> \<not> marginsReverseEndpoints G (positionsToLinePosition source target) shifted
                 (fst margins * scale) (snd margins * scale))
      \<and> (\<forall>c. es_curve state' = Some c \<longrightarrow>
            (circ_center (cv_circle c), circ_radius (cv_circle c)) =
              calculateCircleCenterAndRadiusBy3Points G
                (ln_source (fromLinePosition (es_origin state')))
                (ln_target (fromLinePosition (es_origin state')))
                (getCenterOfLinePosition shifted))"
proof -
  define shifted where
    "shifted = calculateEdgeShiftedPosition G lp summarized source target scale
                 (cfg_keepOrder config)"
  define shapeMargins where
    "shapeMargins = calculateDistancesFromCenterOfNodeToEndOfNode G
                      source target sourceShape targetShape"
  define margins where
    "margins = edgeMargins config l (fst shapeMargins) (snd shapeMargins)"
  define shift where "shift = lp_groupWidth lp / 2 - lp_pointInGroup lp"
  define origin where "origin = positionsToLinePosition source target"
  define res where
    "res = calculateCurvePositionAndState G origin shifted shift
             (fst margins * scale) (snd margins * scale)"
  define state' where
    "state' = edgeCalcEffect G config edges layouts nodeStates lp summarized scale l
                edgeId state"
  note eff = edgeCalcEffect_present
    [where edges = edges and edgeId = edgeId and edge = edge and layouts = layouts
       and source = source and target = target and nodeStates = nodeStates
       and sourceShape = sourceShape and targetShape = targetShape, OF assms]
  have straight: "es_curve state' = None" if "cfg_type config = TypeStraight"
    using that by (simp add: state'_def eff Let_def)
  have curve: "es_curve state' = snd res \<and> es_origin state' = origin"
    if "cfg_type config = TypeCurve"
    using that
    by (simp add: state'_def eff Let_def res_def shifted_def shapeMargins_def margins_def
        shift_def origin_def)
  have ends: "ln_source (fromLinePosition origin) = (x1 origin, y1 origin)"
    "ln_target (fromLinePosition origin) = (x2 origin, y2 origin)"
    by (simp_all add: fromLinePosition_def)
  have iff: "es_curve state' \<noteq> None \<longleftrightarrow>
      cfg_type config = TypeCurve \<and> shift \<noteq> 0
      \<and> \<not> marginsReverseEndpoints G origin shifted (fst margins * scale) (snd margins * scale)"
  proof (cases "cfg_type config")
    case TypeStraight
    with straight show ?thesis by simp
  next
    case TypeCurve
    with curve have "es_curve state' = snd res" by simp
    then show ?thesis
      unfolding res_def using TypeCurve calc_curve_iff by simp
  qed
  have circle: "(circ_center (cv_circle c), circ_radius (cv_circle c)) =
      calculateCircleCenterAndRadiusBy3Points G
        (ln_source (fromLinePosition (es_origin state')))
        (ln_target (fromLinePosition (es_origin state')))
        (getCenterOfLinePosition shifted)"
    if c: "es_curve state' = Some c" for c
  proof (cases "cfg_type config")
    case TypeStraight
    with straight c show ?thesis by simp
  next
    case TypeCurve
    with curve c have "snd res = Some c" and o: "es_origin state' = origin" by simp_all
    from calc_curve_circle [OF this(1) [unfolded res_def]] show ?thesis
      by (simp add: o ends)
  qed
  show ?thesis
    using straight iff circle
    unfolding Let_def state'_def shifted_def shapeMargins_def margins_def shift_def origin_def
    by blast
qed

lemma ex_scene_present:
  "ex_edges ''e1'' = Some ex_edge"
  "ex_layouts (edge_source ex_edge) = Some (0, 0)"
  "ex_layouts (edge_target ex_edge) = Some (2, 0)"
  "Option.bind (ex_nodeStates (edge_source ex_edge)) ns_staticShape = Some (ex_circle 1)"
  "Option.bind (ex_nodeStates (edge_target ex_edge)) ns_staticShape = Some (ex_circle 1)"
  by (simp_all add: ex_edges_def ex_edge_def ex_layouts_def ex_nodeStates_def ex_nodeState_def)

lemma ex_margins_zero:
  "edgeMargins \<lparr>cfg_type = ty, cfg_margin = None, cfg_keepOrder = Clock\<rparr> ex_line a b = (0, 0)"
  by (simp add: edgeMargins_def markerMargin_def ex_line_def ex_noMarker_def)

theorem edge_curve_presence_witness:
  "ex_edges ''e1'' = Some ex_edge
   \<and> ex_layouts (edge_source ex_edge) = Some (0, 0)
   \<and> ex_layouts (edge_target ex_edge) = Some (2, 0)
   \<and> Option.bind (ex_nodeStates (edge_source ex_edge)) ns_staticShape = Some (ex_circle 1)
   \<and> Option.bind (ex_nodeStates (edge_target ex_edge)) ns_staticShape = Some (ex_circle 1)
   \<and> es_curve (edgeCalcEffect specGeometry
        \<lparr>cfg_type = TypeCurve, cfg_margin = None, cfg_keepOrder = Clock\<rparr>
        ex_edges ex_layouts ex_nodeStates \<lparr>lp_groupWidth = 2, lp_pointInGroup = 0\<rparr> False 1
        ex_line ''e1'' ex_edgeState) \<noteq> None
   \<and> es_curve (edgeCalcEffect specGeometry
        \<lparr>cfg_type = TypeStraight, cfg_margin = None, cfg_keepOrder = Clock\<rparr>
        ex_edges ex_layouts ex_nodeStates \<lparr>lp_groupWidth = 2, lp_pointInGroup = 0\<rparr> False 1
        ex_line ''e1'' ex_edgeState) = None"
proof -
  have "es_curve (edgeCalcEffect specGeometry
        \<lparr>cfg_type = TypeCurve, cfg_margin = None, cfg_keepOrder = Clock\<rparr>
        ex_edges ex_layouts ex_nodeStates \<lparr>lp_groupWidth = 2, lp_pointInGroup = 0\<rparr> False 1
        ex_line ''e1'' ex_edgeState) \<noteq> None"
    using edge_curve_presence
      [where edges = ex_edges and edgeId = "''e1''" and layouts = ex_layouts
         and nodeStates = ex_nodeStates and G = specGeometry and l = ex_line
         and config = "\<lparr>cfg_type = TypeCurve, cfg_margin = None, cfg_keepOrder = Clock\<rparr>"
         and lp = "\<lparr>lp_groupWidth = 2, lp_pointInGroup = 0\<rparr>" and summarized = False
         and scale = 1 and state = ex_edgeState, OF ex_scene_present]
    by (simp add: Let_def ex_margins_zero marginsReverseEndpoints_def)
  moreover have "es_curve (edgeCalcEffect specGeometry
        \<lparr>cfg_type = TypeStraight, cfg_margin = None, cfg_keepOrder = Clock\<rparr>
        ex_edges ex_layouts ex_nodeStates \<lparr>lp_groupWidth = 2, lp_pointInGroup = 0\<rparr> False 1
        ex_line ''e1'' ex_edgeState) = None"
    using edge_curve_presence
      [where edges = ex_edges and edgeId = "''e1''" and layouts = ex_layouts
         and nodeStates = ex_nodeStates and G = specGeometry and l = ex_line
         and config = "\<lparr>cfg_type = TypeStraight, cfg_margin = None, cfg_keepOrder = Clock\<rparr>"
         and lp = "\<lparr>lp_groupWidth = 2, lp_pointInGroup = 0\<rparr>" and summarized = False
         and scale = 1 and state = ex_edgeState, OF ex_scene_present]
    by (simp add: Let_def)
  ultimately show ?thesis
    using ex_scene_present by simp
qed

text \<open>
  Claim C3. For a curve-type edge whose group shift \<open>groupWidth / 2 - pointInGroup\<close> is
  zero, with the node positions, shapes, markers and margins of a straight-type edge, a
  nonzero scale, and the shifted position that the grouping helper returns being the
  center-to-center line (no lateral displacement at zero offset), the state after the
  computation is the state a straight-type edge gets: the position is the origin line
  with the margins applied (the origin line itself when both margins are zero) and the
  curve is undefined.
\<close>

theorem curve_zero_shift_equals_straight:
  assumes "edges edgeId = Some edge"
    and "layouts (edge_source edge) = Some source"
    and "layouts (edge_target edge) = Some target"
    and "Option.bind (nodeStates (edge_source edge)) ns_staticShape = Some sourceShape"
    and "Option.bind (nodeStates (edge_target edge)) ns_staticShape = Some targetShape"
    and "cfg_type config = TypeCurve"
    and "lp_groupWidth lp / 2 - lp_pointInGroup lp = 0"
    and "scale \<noteq> 0"
    and "calculateEdgeShiftedPosition G lp summarized source target scale (cfg_keepOrder config)
           = positionsToLinePosition source target"
  shows
    "let curved = edgeCalcEffect G config edges layouts nodeStates lp summarized scale l
                    edgeId state;
         straight = edgeCalcEffect G (config\<lparr>cfg_type := TypeStraight\<rparr>) edges layouts
                      nodeStates lp summarized scale l edgeId state;
         shapeMargins = calculateDistancesFromCenterOfNodeToEndOfNode G
                          source target sourceShape targetShape;
         margins = edgeMargins config l (fst shapeMargins) (snd shapeMargins);
         origin = positionsToLinePosition source target
     in curved = straight
      \<and> es_position curved =
          (if fst margins = 0 \<and> snd margins = 0 then origin
           else applyMarginToLine G origin (fst margins * scale) (snd margins * scale))
      \<and> es_curve curved = None"
proof -
  note pres = assms(1-5)
  note effc = edgeCalcEffect_present
    [where edges = edges and edgeId = edgeId and edge = edge and layouts = layouts
       and source = source and target = target and nodeStates = nodeStates
       and sourceShape = sourceShape and targetShape = targetShape
       and config = config, OF pres]
  note effs = edgeCalcEffect_present
    [where edges = edges and edgeId = edgeId and edge = edge and layouts = layouts
       and source = source and target = target and nodeStates = nodeStates
       and sourceShape = sourceShape and targetShape = targetShape
       and config = "config\<lparr>cfg_type := TypeStraight\<rparr>", OF pres]
  have m: "edgeMargins (config\<lparr>cfg_type := TypeStraight\<rparr>) l a b = edgeMargins config l a b"
    for a b
    by (simp add: edgeMargins_def)
  show ?thesis
    using assms(6-9)
    by (simp add: effc effs Let_def m calc_zero_shift)
qed

theorem curve_zero_shift_equals_straight_witness:
  "ex_edges ''e1'' = Some ex_edge
   \<and> ex_layouts (edge_source ex_edge) = Some (0, 0)
   \<and> ex_layouts (edge_target ex_edge) = Some (2, 0)
   \<and> Option.bind (ex_nodeStates (edge_source ex_edge)) ns_staticShape = Some (ex_circle 1)
   \<and> Option.bind (ex_nodeStates (edge_target ex_edge)) ns_staticShape = Some (ex_circle 1)
   \<and> lp_groupWidth \<lparr>lp_groupWidth = 0, lp_pointInGroup = 0\<rparr> / 2
       - lp_pointInGroup \<lparr>lp_groupWidth = 0, lp_pointInGroup = 0\<rparr> = 0
   \<and> calculateEdgeShiftedPosition specGeometry \<lparr>lp_groupWidth = 0, lp_pointInGroup = 0\<rparr>
        False (0, 0) (2, 0) 1 Clock = positionsToLinePosition (0, 0) (2, 0)
   \<and> edgeCalcEffect specGeometry \<lparr>cfg_type = TypeCurve, cfg_margin = None, cfg_keepOrder = Clock\<rparr>
        ex_edges ex_layouts ex_nodeStates \<lparr>lp_groupWidth = 0, lp_pointInGroup = 0\<rparr> False 1
        ex_line ''e1'' ex_edgeState
     = edgeCalcEffect specGeometry
        \<lparr>cfg_type = TypeStraight, cfg_margin = None, cfg_keepOrder = Clock\<rparr>
        ex_edges ex_layouts ex_nodeStates \<lparr>lp_groupWidth = 0, lp_pointInGroup = 0\<rparr> False 1
        ex_line ''e1'' ex_edgeState"
proof -
  have sh: "calculateEdgeShiftedPosition specGeometry \<lparr>lp_groupWidth = 0, lp_pointInGroup = 0\<rparr>
        False (0, 0) (2, 0) 1
        (cfg_keepOrder \<lparr>cfg_type = TypeCurve, cfg_margin = None, cfg_keepOrder = Clock\<rparr>)
      = positionsToLinePosition (0, 0) (2, 0)"
    by (simp add: spec_calculateEdgeShiftedPosition_def Let_def vec_add_def multiplyScalar_def)
  have ty: "cfg_type \<lparr>cfg_type = TypeCurve, cfg_margin = None, cfg_keepOrder = Clock\<rparr> = TypeCurve"
    by simp
  have z: "lp_groupWidth \<lparr>lp_groupWidth = 0, lp_pointInGroup = 0\<rparr> / 2
       - lp_pointInGroup \<lparr>lp_groupWidth = 0, lp_pointInGroup = 0\<rparr> = 0"
    by simp
  have one: "(1::real) \<noteq> 0" by simp
  from curve_zero_shift_equals_straight
      [where edges = ex_edges and edgeId = "''e1''" and layouts = ex_layouts
         and nodeStates = ex_nodeStates and G = specGeometry and l = ex_line
         and summarized = False and state = ex_edgeState,
       OF ex_scene_present ty z one sh]
  show ?thesis
    using ex_scene_present sh by (simp add: Let_def)
qed

lemma ex_margins_reverse:
  "marginsReverseEndpoints specGeometry \<lparr>x1 = - 1, y1 = 0, x2 = 1, y2 = 0\<rparr>
      \<lparr>x1 = - 1, y1 = 1, x2 = 1, y2 = 1\<rparr> pi (pi / 2)"
  by (simp add: marginsReverseEndpoints_def Let_def getCenterOfLinePosition_def
      spec_circle_unit fromVectors_def vec_subtract_def spec_calculateRelativeAngleRadian_def
      spec_atan2_def spec_moveOnCircumference_def mult_less_0_iff)

lemma ex_stub_value:
  "calculateCurvePositionAndState specGeometry \<lparr>x1 = - 1, y1 = 0, x2 = 1, y2 = 0\<rparr>
      \<lparr>x1 = - 1, y1 = 1, x2 = 1, y2 = 1\<rparr> 1 pi (pi / 2)
   = (\<lparr>x1 = 0, y1 = 1, x2 = 1 / 2, y2 = 1\<rparr>, None)"
  by (simp add: calc_reversed [OF _ ex_margins_reverse] getCenterOfLinePosition_def
      fromLinePosition_def vec_subtract_def positionsToLinePosition_def vec_add_def
      multiplyScalar_def spec_normalize_def spec_length_def)

text \<open>
  Claim C4, as the code has it. For a curve-type edge with nonzero group shift whose
  margins lead into the endpoint-reversal branch, the returned position is the stub that
  starts at the midpoint of the shifted position and ends half a unit further along the
  normalized line vector of the shifted position (its target minus its source), and the
  returned curve is undefined.
\<close>

theorem margin_overrun_stub:
  assumes "shift \<noteq> 0"
    and "marginsReverseEndpoints G originPosition shiftedPosition sourceMargin targetMargin"
  shows "calculateCurvePositionAndState G originPosition shiftedPosition shift
           sourceMargin targetMargin =
     (positionsToLinePosition (getCenterOfLinePosition shiftedPosition)
        (vec_add (getCenterOfLinePosition shiftedPosition)
           (multiplyScalar (normalize_vec G (ln_v (fromLinePosition shiftedPosition))) 0.5)),
      None)"
  using assms by (rule calc_reversed)

theorem margin_overrun_stub_witness:
  "(1::real) \<noteq> 0
   \<and> marginsReverseEndpoints specGeometry \<lparr>x1 = - 1, y1 = 0, x2 = 1, y2 = 0\<rparr>
        \<lparr>x1 = - 1, y1 = 1, x2 = 1, y2 = 1\<rparr> pi (pi / 2)
   \<and> calculateCurvePositionAndState specGeometry \<lparr>x1 = - 1, y1 = 0, x2 = 1, y2 = 0\<rparr>
        \<lparr>x1 = - 1, y1 = 1, x2 = 1, y2 = 1\<rparr> 1 pi (pi / 2)
      = (\<lparr>x1 = 0, y1 = 1, x2 = 1 / 2, y2 = 1\<rparr>, None)"
proof -
  have one: "(1::real) \<noteq> 0" by simp
  from margin_overrun_stub [OF one ex_margins_reverse]
  show ?thesis
    using ex_margins_reverse
    by (simp add: getCenterOfLinePosition_def fromLinePosition_def vec_subtract_def
        positionsToLinePosition_def vec_add_def multiplyScalar_def spec_normalize_def
        spec_length_def)
qed

text \<open>
  The stub is not centered at the shifted midpoint: for the origin from \<open>(-1, 0)\<close> to
  \<open>(1, 0)\<close>, the shifted position from \<open>(-1, 1)\<close> to \<open>(1, 1)\<close>, shift \<open>1\<close> and the
  margins \<open>pi\<close> and \<open>pi / 2\<close> (the circle has radius \<open>1\<close>), the margins reverse the end
  points and the returned position runs from the shifted midpoint \<open>(0, 1)\<close> to
  \<open>(1/2, 1)\<close>; its own midpoint is \<open>(1/4, 1)\<close>.
\<close>

theorem margin_overrun_stub_not_centered:
  "marginsReverseEndpoints specGeometry \<lparr>x1 = - 1, y1 = 0, x2 = 1, y2 = 0\<rparr>
        \<lparr>x1 = - 1, y1 = 1, x2 = 1, y2 = 1\<rparr> pi (pi / 2)
   \<and> getCenterOfLinePosition
        (fst (calculateCurvePositionAndState specGeometry \<lparr>x1 = - 1, y1 = 0, x2 = 1, y2 = 0\<rparr>
                \<lparr>x1 = - 1, y1 = 1, x2 = 1, y2 = 1\<rparr> 1 pi (pi / 2)))
       \<noteq> getCenterOfLinePosition \<lparr>x1 = - 1, y1 = 1, x2 = 1, y2 = 1\<rparr>
   \<and> \<not> centeredStub
        (fst (calculateCurvePositionAndState specGeometry \<lparr>x1 = - 1, y1 = 0, x2 = 1, y2 = 0\<rparr>
                \<lparr>x1 = - 1, y1 = 1, x2 = 1, y2 = 1\<rparr> 1 pi (pi / 2)))
        (getCenterOfLinePosition \<lparr>x1 = - 1, y1 = 1, x2 = 1, y2 = 1\<rparr>)
        (normalize_vec specGeometry (ln_v (fromLinePosition \<lparr>x1 = - 1, y1 = 1, x2 = 1, y2 = 1\<rparr>)))
        (1 / 2)"
  using ex_margins_reverse
  by (simp add: ex_stub_value getCenterOfLinePosition_def centeredStub_def
      positionsToLinePosition_def vec_subtract_def vec_add_def multiplyScalar_def
      fromLinePosition_def spec_normalize_def spec_length_def)

text \<open>
  Claim C8, as the code has it. The edge-curve computation invokes the circumcircle
  routine exactly once, on the origin's source, the origin's target and the midpoint of
  the shifted position, whatever the shift is; for group shift zero the result of the
  routine is not used: the returned position and curve are those of the straight-line
  shortcut and are the same for every circumcircle routine.
\<close>

theorem circumcircle_result_unused_at_zero_shift:
  "fst (calculateCurvePositionAndState_traced G originPosition shiftedPosition shift
          sourceMargin targetMargin)
     = [((x1 originPosition, y1 originPosition), (x2 originPosition, y2 originPosition),
         getCenterOfLinePosition shiftedPosition)]
   \<and> (shift = 0 \<longrightarrow>
        calculateCurvePositionAndState (G\<lparr>calculateCircleCenterAndRadiusBy3Points := circle\<rparr>)
          originPosition shiftedPosition shift sourceMargin targetMargin
        = calculateCurvePositionAndState G originPosition shiftedPosition shift
            sourceMargin targetMargin
      \<and> calculateCurvePositionAndState G originPosition shiftedPosition shift
            sourceMargin targetMargin
        = (if sourceMargin = 0 \<and> targetMargin = 0 then originPosition
           else applyMarginToLine G originPosition sourceMargin targetMargin, None))"
  by (simp add: traced_calls calc_zero_shift)

theorem circumcircle_result_unused_at_zero_shift_witness:
  "calculateCurvePositionAndState
     (specGeometry\<lparr>calculateCircleCenterAndRadiusBy3Points := (\<lambda>p q r. ((7, 7), 7))\<rparr>)
     \<lparr>x1 = 0, y1 = 0, x2 = 2, y2 = 0\<rparr> \<lparr>x1 = 0, y1 = 0, x2 = 2, y2 = 0\<rparr> 0 0 0
   = calculateCurvePositionAndState specGeometry
     \<lparr>x1 = 0, y1 = 0, x2 = 2, y2 = 0\<rparr> \<lparr>x1 = 0, y1 = 0, x2 = 2, y2 = 0\<rparr> 0 0 0
   \<and> calculateCurvePositionAndState specGeometry
     \<lparr>x1 = 0, y1 = 0, x2 = 2, y2 = 0\<rparr> \<lparr>x1 = 0, y1 = 0, x2 = 2, y2 = 0\<rparr> 0 0 0
   = (\<lparr>x1 = 0, y1 = 0, x2 = 2, y2 = 0\<rparr>, None)"
  using circumcircle_result_unused_at_zero_shift
    [of specGeometry "\<lparr>x1 = 0, y1 = 0, x2 = 2, y2 = 0\<rparr>" "\<lparr>x1 = 0, y1 = 0, x2 = 2, y2 = 0\<rparr>"
        0 0 0 "\<lambda>p q r. ((7, 7), 7)"]
  by simp

text \<open>
  With shift zero the routine is invoked all the same, on three collinear points: the
  origin from \<open>(0, 0)\<close> to \<open>(2, 0)\<close> and the midpoint \<open>(1, 0)\<close> of the shifted position,
  which for shift zero is the origin line.
\<close>

theorem circumcircle_invoked_on_collinear_points:
  "fst (calculateCurvePositionAndState_traced specGeometry
          \<lparr>x1 = 0, y1 = 0, x2 = 2, y2 = 0\<rparr> \<lparr>x1 = 0, y1 = 0, x2 = 2, y2 = 0\<rparr> 0 0 0)
     = [((0, 0), (2, 0), (1, 0))]
   \<and> collinear3 (0, 0) (2, 0) (1, 0)"
  by (simp add: traced_calls getCenterOfLinePosition_def collinear3_def)

section \<open>Properties of stale states\<close>

text \<open>
  Claim C9, as the code has it. When the lookup of the node finds nothing, the node being
  absent from the node map and its identifier not a name that \<^verbatim>\<open>Object.prototype\<close>
  defines, the getters of \<^verbatim>\<open>shape\<close>, \<^verbatim>\<open>staticShape\<close>, \<^verbatim>\<open>label\<close>,
  \<^verbatim>\<open>draggable\<close> and \<^verbatim>\<open>selectable\<close> return the value they returned before, and
  so does the getter of \<^verbatim>\<open>labelText\<close> when the configured label text is a literal;
  when the configured label text is a function, \<^verbatim>\<open>labelText\<close> is the text of the
  (retained) value of \<^verbatim>\<open>label\<close>. When the edge, the position of one of its end
  nodes or the static shape of one of its end nodes is missing, the identifiers of the
  edge and of its end nodes not being names that \<^verbatim>\<open>Object.prototype\<close> defines, the
  edge geometry computation leaves the edge state as it is, so origin, label position,
  position and curve are not modified. For these identifiers the lookup of an own property,
  which \<open>edgeCalcEffect\<close> makes, is the lookup of the code.
\<close>

theorem missing_entity_keeps_state:
  "(nodes nodeId = None \<and> nodeId \<notin> set objectPrototypeNames \<longrightarrow>
      computed_shape config nodes nodeId state = ns_shape state
    \<and> computed_staticShape config nodes nodeId state = ns_staticShape state
    \<and> computed_label config nodes nodeId state = ns_label state
    \<and> computed_draggable config nodes nodeId state = ns_draggable state
    \<and> computed_selectable config nodes nodeId state = ns_selectable state
    \<and> computed_labelText protoText config nodes nodeId state =
        (case cnl_text (nc_label config) of
           Literal c \<Rightarrow> Inr (ns_labelText state)
         | Callable f \<Rightarrow>
             (case ns_label state of
                None \<Rightarrow> Inl TypeError
              | Some label \<Rightarrow> Inr (Some (nl_text label)))))
   \<and> (edgeId \<notin> set objectPrototypeNames
       \<and> (case edges edgeId of
             None \<Rightarrow> True
           | Some edge \<Rightarrow>
               edge_source edge \<notin> set objectPrototypeNames
               \<and> edge_target edge \<notin> set objectPrototypeNames
               \<and> (layouts (edge_source edge) = None \<or> layouts (edge_target edge) = None
                  \<or> Option.bind (nodeStates (edge_source edge)) ns_staticShape = None
                  \<or> Option.bind (nodeStates (edge_target edge)) ns_staticShape = None)) \<longrightarrow>
        edgeCalcEffect G econfig edges layouts nodeStates lp summarized scale l edgeId estate
          = estate)"
proof (intro conjI impI; (elim conjE)?)
  assume "nodes nodeId = None" and "nodeId \<notin> set objectPrototypeNames"
  then have node: "getProperty nodes nodeId = None"
    by (simp add: getProperty_def)
  show "computed_shape config nodes nodeId state = ns_shape state"
    by (simp add: node computed_shape_def)
  show "computed_staticShape config nodes nodeId state = ns_staticShape state"
    by (simp add: node computed_staticShape_def)
  show "computed_label config nodes nodeId state = ns_label state"
    by (simp add: node computed_label_def)
  show "computed_draggable config nodes nodeId state = ns_draggable state"
    by (simp add: node computed_draggable_def)
  show "computed_selectable config nodes nodeId state = ns_selectable state"
    by (simp add: node computed_selectable_def)
  show "computed_labelText protoText config nodes nodeId state =
        (case cnl_text (nc_label config) of
           Literal c \<Rightarrow> Inr (ns_labelText state)
         | Callable f \<Rightarrow>
             (case ns_label state of
                None \<Rightarrow> Inl TypeError
              | Some label \<Rightarrow> Inr (Some (nl_text label))))"
    by (simp add: node computed_labelText_def computed_label_def
        split: option.splits CallableValue.splits)
next
  assume "case edges edgeId of
             None \<Rightarrow> True
           | Some edge \<Rightarrow>
               edge_source edge \<notin> set objectPrototypeNames
               \<and> edge_target edge \<notin> set objectPrototypeNames
               \<and> (layouts (edge_source edge) = None \<or> layouts (edge_target edge) = None
                  \<or> Option.bind (nodeStates (edge_source edge)) ns_staticShape = None
                  \<or> Option.bind (nodeStates (edge_target edge)) ns_staticShape = None)"
  then show "edgeCalcEffect G econfig edges layouts nodeStates lp summarized scale l edgeId
               estate = estate"
    by (auto simp: edgeCalcEffect_def split: option.splits)
qed

theorem missing_entity_keeps_state_witness:
  "(Map.empty :: string \<rightharpoonup> Node) ''n'' = None
   \<and> ''n'' \<notin> set objectPrototypeNames
   \<and> computed_shape (ex_nodeConfig (Literal ''name'')) Map.empty ''n'' ex_staleNodeState
       = ns_shape ex_staleNodeState
   \<and> computed_label (ex_nodeConfig (Literal ''name'')) Map.empty ''n'' ex_staleNodeState
       = ns_label ex_staleNodeState
   \<and> computed_labelText ex_protoText (ex_nodeConfig (Literal ''name'')) Map.empty ''n''
        ex_staleNodeState
       = Inr (Some ''b'')
   \<and> ''e1'' \<notin> set objectPrototypeNames
   \<and> (Map.empty :: string \<rightharpoonup> Edge) ''e1'' = None
   \<and> edgeCalcEffect specGeometry \<lparr>cfg_type = TypeCurve, cfg_margin = None, cfg_keepOrder = Clock\<rparr>
        (Map.empty :: string \<rightharpoonup> Edge) ex_layouts ex_nodeStates
        \<lparr>lp_groupWidth = 2, lp_pointInGroup = 0\<rparr> False 1 ex_line ''e1'' ex_edgeState
       = ex_edgeState"
  using missing_entity_keeps_state
    [where nodes = "Map.empty :: string \<rightharpoonup> Node" and nodeId = "''n''"
       and protoText = ex_protoText
       and config = "ex_nodeConfig (Literal ''name'')" and state = ex_staleNodeState
       and edges = "Map.empty :: string \<rightharpoonup> Edge" and edgeId = "''e1''"
       and layouts = ex_layouts and nodeStates = ex_nodeStates and G = specGeometry
       and econfig = "\<lparr>cfg_type = TypeCurve, cfg_margin = None, cfg_keepOrder = Clock\<rparr>"
       and lp = "\<lparr>lp_groupWidth = 2, lp_pointInGroup = 0\<rparr>" and summarized = False
       and scale = 1 and l = ex_line and estate = ex_edgeState]
  by (simp add: ex_nodeConfig_def ex_staleNodeState_def objectPrototypeNames_def)

text \<open>
  With a label text computed by a function and the node missing, \<^verbatim>\<open>labelText\<close>
  does not return the value it held: in the state \<open>ex_staleNodeState\<close> it held
  \<^verbatim>\<open>"b"\<close> and returns \<^verbatim>\<open>"a"\<close>, the text of the retained label.
\<close>

theorem labelText_not_retained_for_function_text:
  "(Map.empty :: string \<rightharpoonup> Node) ''n'' = None
   \<and> ''n'' \<notin> set objectPrototypeNames
   \<and> ns_labelText ex_staleNodeState = Some ''b''
   \<and> computed_labelText ex_protoText (ex_nodeConfig (Callable ex_nameOf)) Map.empty ''n''
        ex_staleNodeState
       = Inr (Some ''a'')
   \<and> computed_labelText ex_protoText (ex_nodeConfig (Callable ex_nameOf)) Map.empty ''n''
        ex_staleNodeState
       \<noteq> Inr (ns_labelText ex_staleNodeState)"
  by (simp add: computed_labelText_def computed_label_def getProperty_def ex_nodeConfig_def
      ex_staleNodeState_def objectPrototypeNames_def)

text \<open>
  A missing node whose identifier is a name that \<^verbatim>\<open>Object.prototype\<close> defines: the
  lookup \<^verbatim>\<open>nodes.value["toString"]\<close> finds the inherited function, the test
  \<^verbatim>\<open>!nodes.value[id]\<close> fails, and the getter of \<^verbatim>\<open>label\<close> computes a new
  label with that function as the node, instead of returning the label it held.
\<close>

lemma label_recomputed_for_inherited_identifier:
  "(Map.empty :: string \<rightharpoonup> Node) ''toString'' = None
   \<and> ns_label ex_staleNodeState = Some \<lparr>nl_visible = False, nl_margin = 4, nl_text = ''a''\<rparr>
   \<and> computed_label (ex_nodeConfig (Callable ex_nameOf)) Map.empty ''toString''
        ex_staleNodeState
       = Some \<lparr>nl_visible = False, nl_margin = 4, nl_text = ''toString''\<rparr>"
  by (simp add: computed_label_def getProperty_def Config_values_label_def Config_value_def
      ex_nodeConfig_def ex_staleNodeState_def ex_showLabel_def ex_nameOf_def ex_protoText_def
      objectPrototypeNames_def)

section \<open>Properties of the summarized edge states\<close>

lemma fold_update_other:
  "k \<notin> fst ` set cs \<Longrightarrow>
   map_of (foldl (\<lambda>states (gid, grp). AList.update gid (mk grp) states) s cs) k = map_of s k"
  by (induction cs arbitrary: s) (auto simp: update_conv')


lemma fold_delete_map_of:
  "map_of (foldl (\<lambda>states gid. if \<not> P gid then AList.delete gid states else states) s ks) k
     = (if k \<in> set ks \<and> \<not> P k then None else map_of s k)"
  by (induction ks arbitrary: s) (auto simp: delete_conv')


lemma createSummarizedEdgeStates_map_of:
  "map_of (createSummarizedEdgeStates mk states groups) k =
     (if isSummarizedGroup groups k
      then (case map_of states k of
              Some v \<Rightarrow> Some v
            | None \<Rightarrow> map_of (foldl (\<lambda>sts (gid, grp). AList.update gid (mk grp) sts) states
                          (filter (\<lambda>(gid, grp). eg_summarize grp
                                     \<and> \<not> hasProperty (map_of states) gid)
                             groups)) k)
      else None)"
proof -
  define created where
    "created = filter (\<lambda>(gid, grp). eg_summarize grp \<and> \<not> hasProperty (map_of states) gid)
                 groups"
  define states1 where
    "states1 = foldl (\<lambda>sts (gid, grp). AList.update gid (mk grp) sts) states created"
  have r: "map_of (createSummarizedEdgeStates mk states groups) k =
      (if k \<in> set (map fst states1) \<and> \<not> isSummarizedGroup groups k then None
       else map_of states1 k)"
    unfolding createSummarizedEdgeStates_def Let_def created_def [symmetric]
      states1_def [symmetric]
    by (rule fold_delete_map_of)
  have dom1: "k \<in> set (map fst states1) \<longleftrightarrow> map_of states1 k \<noteq> None"
    by (simp add: map_of_eq_None_iff)
  have keep: "map_of states1 k = Some v" if "map_of states k = Some v" for v
  proof -
    from that have "k \<notin> fst ` set created"
      by (auto simp: created_def hasProperty_def)
    then show ?thesis
      unfolding states1_def using that by (simp add: fold_update_other)
  qed
  show ?thesis
    using r dom1 keep
    by (auto simp: created_def [symmetric] states1_def [symmetric] split: option.splits)
qed

text \<open>
  No state is created for a group whose identifier is a name that
  \<^verbatim>\<open>Object.prototype\<close> defines: \<^verbatim>\<open>id in summarizedEdgeStates\<close> is true of it.
\<close>

lemma no_state_created_for_inherited_name:
  assumes "gid \<in> set objectPrototypeNames" and "map_of states gid = None"
  shows "map_of (createSummarizedEdgeStates mk states groups) gid = None"
proof -
  have "gid \<notin> fst ` set (filter (\<lambda>(gid, grp). eg_summarize grp
                                    \<and> \<not> hasProperty (map_of states) gid) groups)"
    using assms(1) by (auto simp: hasProperty_def)
  then show ?thesis
    using assms(2) by (simp add: createSummarizedEdgeStates_map_of fold_update_other)
qed




section \<open>Properties of the path points\<close>

lemma sqrt_values:
  "sqrt 25 = 5" "sqrt 100 = 10" "sqrt 1600 = 40" "sqrt 3600 = 60" "sqrt 19600 = 140"
  by (rule real_sqrt_unique; simp)+

lemma core_radius_le:
  "0 \<le> (R::real) \<Longrightarrow> 0 \<le> s \<Longrightarrow> max (R * (2 / 3)) (R - 4 * s) \<le> R"
  by (auto simp: max_def)

lemma transitPos_outside:
  assumes shape: "Option.bind (nodeStates (el_source nextLine)) ns_shape = Some shape"
    and nonneg: "0 \<le> getNodeRadius shape" "0 \<le> scale"
    and nodePos: "nodePos = (case nodeLayouts (el_source nextLine) of Some p \<Rightarrow> p | None \<Rightarrow> (0, 0))"
    and outside: "case getIntersectionOfLines G prevLine nextLine nodePos of
                    None \<Rightarrow> True
                  | Some X \<Rightarrow> getNodeRadius shape * scale < calculateDistance G X nodePos"
  shows "transitPos G nodeStates nodeLayouts scale prevLine nextLine =
     Inr (let nodeRadius = getNodeRadius shape * scale;
              nodeCoreRadius = max (nodeRadius * (2 / 3)) (nodeRadius - 4 * scale);
              prevCoreIp = getIntersectionOfLineAndNode G prevLine nodePos nodeCoreRadius True;
              nextCoreIp = getIntersectionOfLineAndNode G nextLine nodePos nodeCoreRadius False;
              prevNodeIp = getIntersectionOfLineAndNode G prevLine nodePos nodeRadius True;
              nextNodeIp = getIntersectionOfLineAndNode G nextLine nodePos nodeRadius False
          in if prevCoreIp \<noteq> None \<and> nextCoreIp \<noteq> None
             then (the prevCoreIp, nodePos, the nextCoreIp)
             else if prevNodeIp \<noteq> None \<and> nextNodeIp \<noteq> None
             then (the prevNodeIp, nodePos, the nextNodeIp)
             else if getIntersectionOfLines G prevLine nextLine nodePos = None
             then (ln_target (el_line prevLine), nodePos, ln_source (el_line nextLine))
             else (findFirstNonNull prevCoreIp prevNodeIp (ln_target (el_line prevLine)),
                   nodePos,
                   findFirstNonNull nextCoreIp nextNodeIp (ln_source (el_line nextLine))))"
proof -
  have r: "0 \<le> getNodeRadius shape * scale"
    using nonneg by simp
  have core: "max (getNodeRadius shape * scale * (2 / 3)) (getNodeRadius shape * scale - 4 * scale)
                \<le> getNodeRadius shape * scale"
    using core_radius_le [OF r nonneg(2)] .
  have sr: "scaledNodeRadius nodeStates scale (el_source nextLine) = Inr (getNodeRadius shape * scale)"
    using shape by (simp add: scaledNodeRadius_def)
  show ?thesis
  proof (cases "getIntersectionOfLines G prevLine nextLine nodePos")
    case None
    then show ?thesis
      unfolding transitPos_def Let_def nodePos [symmetric]
      by (simp add: sr split: option.splits)
  next
    case (Some X)
    with outside have d: "getNodeRadius shape * scale < calculateDistance G X nodePos"
      by simp
    with core have d': "\<not> calculateDistance G X nodePos
           < max (getNodeRadius shape * scale * (2 / 3)) (getNodeRadius shape * scale - 4 * scale)"
      "\<not> calculateDistance G X nodePos \<le> getNodeRadius shape * scale"
      by linarith+
    show ?thesis
      unfolding transitPos_def Let_def nodePos [symmetric]
      using d'
      by (simp add: sr Some split: option.splits)
  qed
qed

lemma ex_transit_facts:
  "getIntersectionOfLines specGeometry ex_prev ex_next (0, 0) = Some (0, 5)"
  "calculateDistance specGeometry (0, 5) (0, 0) = 5"
  "getIntersectionOfLineAndNode specGeometry ex_prev (0, 0) 2 True = Some (0, - 2)"
  "getIntersectionOfLineAndNode specGeometry ex_next (0, 0) 2 False = None"
  "getIntersectionOfLineAndNode specGeometry ex_prev (0, 0) 3 True = Some (0, - 3)"
  "getIntersectionOfLineAndNode specGeometry ex_next (0, 0) 3 False = None"
  by (simp_all add: getIntersectionOfLines_def getIntersectionOfLineAndNode_def ex_prev_def
      ex_next_def fromLinePosition_def getSlope_def Let_def vec_subtract_def vec_add_def
      multiplyScalar_def spec_getIntersectionPointOfLines_def spec_calculateDistance_def
      spec_length_def spec_getIntersectionOfLineTargetAndCircle_def spec_lineCircle_def
      sqrt_values)

lemma ex_transit_shape:
  "Option.bind (ex_transitStates (el_source ex_next)) ns_shape = Some (ex_circle 3)"
  "getNodeRadius (ex_circle 3) = 3"
  "(case ex_transitLayouts (el_source ex_next) of Some p \<Rightarrow> p | None \<Rightarrow> (0, 0)) = (0, 0)"
  "ex_transitLayouts (el_source ex_next) = Some (0, 0)"
  "ln_target (el_line ex_prev) = (0, 0)"
  "ln_source (el_line ex_next) = (0, 5)"
  by (simp_all add: ex_transitStates_def ex_transitLayouts_def ex_next_def ex_prev_def
      ex_nodeState_def ex_circle_def getNodeRadius_def fromLinePosition_def)

text \<open>
  Claim C5, as the code has it. At a transit node with non-negative radius and scale,
  when the intersection of the incoming and the outgoing line lies strictly outside the
  node radius, or when there is no intersection, the control point is the node center
  and the transit points are the core-circle crossings if both lines have one, else the
  node-circle crossings if both have one; else, when there is no intersection, the raw
  line end points (the incoming line's target and the outgoing line's source), and when
  the intersection lies outside, for each line the first that exists of its core-circle
  crossing, its node-circle crossing and its raw end point.
\<close>

theorem transit_outside_or_no_intersection:
  assumes "Option.bind (nodeStates (el_source nextLine)) ns_shape = Some shape"
    and "0 \<le> getNodeRadius shape" and "0 \<le> scale"
    and "nodePos = (case nodeLayouts (el_source nextLine) of Some p \<Rightarrow> p | None \<Rightarrow> (0, 0))"
    and "case getIntersectionOfLines G prevLine nextLine nodePos of
           None \<Rightarrow> True
         | Some X \<Rightarrow> getNodeRadius shape * scale < calculateDistance G X nodePos"
  shows "transitPos G nodeStates nodeLayouts scale prevLine nextLine =
     Inr (let nodeRadius = getNodeRadius shape * scale;
              nodeCoreRadius = max (nodeRadius * (2 / 3)) (nodeRadius - 4 * scale);
              prevCoreIp = getIntersectionOfLineAndNode G prevLine nodePos nodeCoreRadius True;
              nextCoreIp = getIntersectionOfLineAndNode G nextLine nodePos nodeCoreRadius False;
              prevNodeIp = getIntersectionOfLineAndNode G prevLine nodePos nodeRadius True;
              nextNodeIp = getIntersectionOfLineAndNode G nextLine nodePos nodeRadius False
          in if prevCoreIp \<noteq> None \<and> nextCoreIp \<noteq> None
             then (the prevCoreIp, nodePos, the nextCoreIp)
             else if prevNodeIp \<noteq> None \<and> nextNodeIp \<noteq> None
             then (the prevNodeIp, nodePos, the nextNodeIp)
             else if getIntersectionOfLines G prevLine nextLine nodePos = None
             then (ln_target (el_line prevLine), nodePos, ln_source (el_line nextLine))
             else (findFirstNonNull prevCoreIp prevNodeIp (ln_target (el_line prevLine)),
                   nodePos,
                   findFirstNonNull nextCoreIp nextNodeIp (ln_source (el_line nextLine))))"
  using assms by (rule transitPos_outside)

theorem transit_outside_or_no_intersection_witness:
  "Option.bind (ex_transitStates (el_source ex_next)) ns_shape = Some (ex_circle 3)
   \<and> 0 \<le> getNodeRadius (ex_circle 3) \<and> (0::real) \<le> 1
   \<and> (0, 0) = (case ex_transitLayouts (el_source ex_next) of Some p \<Rightarrow> p | None \<Rightarrow> (0, 0))
   \<and> (case getIntersectionOfLines specGeometry ex_prev ex_next (0, 0) of
         None \<Rightarrow> True
       | Some X \<Rightarrow> getNodeRadius (ex_circle 3) * 1 < calculateDistance specGeometry X (0, 0))
   \<and> transitPos specGeometry ex_transitStates ex_transitLayouts 1 ex_prev ex_next
       = Inr ((0, - 2), (0, 0), (0, 5))"
proof -
  have h1: "Option.bind (ex_transitStates (el_source ex_next)) ns_shape = Some (ex_circle 3)"
    by (rule ex_transit_shape)
  have h2: "0 \<le> getNodeRadius (ex_circle 3)" and h3: "(0::real) \<le> 1"
    by (simp_all add: ex_transit_shape)
  have h4: "(0, 0) = (case ex_transitLayouts (el_source ex_next) of
                        Some p \<Rightarrow> p | None \<Rightarrow> (0, 0))"
    by (simp add: ex_transit_shape)
  have h5: "case getIntersectionOfLines specGeometry ex_prev ex_next (0, 0) of
              None \<Rightarrow> True
            | Some X \<Rightarrow> getNodeRadius (ex_circle 3) * 1 < calculateDistance specGeometry X (0, 0)"
    by (simp add: ex_transit_facts ex_transit_shape del: specGeometry_simps)
  from transit_outside_or_no_intersection
    [where nodeStates = ex_transitStates and nodeLayouts = ex_transitLayouts
       and G = specGeometry and prevLine = ex_prev and nextLine = ex_next and nodePos = "(0, 0)"
       and scale = 1 and shape = "ex_circle 3", OF h1 h2 h3 h4 h5]
  have "transitPos specGeometry ex_transitStates ex_transitLayouts 1 ex_prev ex_next
       = Inr ((0, - 2), (0, 0), (0, 5))"
    by (simp add: Let_def ex_transit_facts ex_transit_shape findFirstNonNull_def
        del: specGeometry_simps)
  with h1 h2 h3 h4 h5 show ?thesis by blast
qed

text \<open>
  At the transit node of the example the two lines intersect at \<open>(0, 5)\<close>, outside the
  node radius \<open>3\<close>; the incoming line crosses the core circle at \<open>(0, -2)\<close>, the outgoing
  line crosses neither circle. The first transit point is the core crossing \<open>(0, -2)\<close>,
  not the raw end point \<open>(0, 0)\<close> of the incoming line.
\<close>

theorem transit_outside_not_raw_endpoints:
  "getIntersectionOfLines specGeometry ex_prev ex_next (0, 0) = Some (0, 5)
   \<and> 3 < calculateDistance specGeometry (0, 5) (0, 0)
   \<and> getIntersectionOfLineAndNode specGeometry ex_prev (0, 0) 2 True = Some (0, - 2)
   \<and> getIntersectionOfLineAndNode specGeometry ex_next (0, 0) 2 False = None
   \<and> getIntersectionOfLineAndNode specGeometry ex_prev (0, 0) 3 True = Some (0, - 3)
   \<and> getIntersectionOfLineAndNode specGeometry ex_next (0, 0) 3 False = None
   \<and> transitPos specGeometry ex_transitStates ex_transitLayouts 1 ex_prev ex_next
       = Inr ((0, - 2), (0, 0), (0, 5))
   \<and> specTransitOutside (Some (0, - 2)) None (Some (0, - 3)) None
       (ln_target (el_line ex_prev)) (ln_source (el_line ex_next)) (0, 0)
       = ((0, 0), (0, 0), (0, 5))"
proof -
  have "transitPos specGeometry ex_transitStates ex_transitLayouts 1 ex_prev ex_next
       = Inr ((0, - 2), (0, 0), (0, 5))"
    unfolding transitPos_def Let_def
    by (simp add: ex_transit_facts ex_transit_shape scaledNodeRadius_def findFirstNonNull_def
        del: specGeometry_simps)
  then show ?thesis
    by (simp add: ex_transit_facts ex_transit_shape specTransitOutside_def
        del: specGeometry_simps)
qed

lemma pushTransit_appends:
  assumes "pushTransit G curveInNode prevLine nextLine pos points = Inr points'"
  shows "\<exists>suffix. points' = points @ suffix \<and> (\<forall>x \<in> set suffix. definedPoint x)"
  using assms
  by (auto simp: pushTransit_def Let_def definedPoint_def
      split: option.splits sum.splits if_splits)

lemma transitLoop_appends:
  "transitLoop G nodeStates nodeLayouts scale curveInNode edgePos points = Inr points' \<Longrightarrow>
   \<exists>suffix. points' = points @ suffix \<and> (\<forall>x \<in> set suffix. definedPoint x)"
proof (induction G nodeStates nodeLayouts scale curveInNode edgePos points
    arbitrary: points' rule: transitLoop.induct)
  case (1 G nodeStates nodeLayouts scale curveInNode prevLine nextLine rest points)
  from "1.prems" obtain pos points1 where
    pos: "transitPos G nodeStates nodeLayouts scale prevLine nextLine = Inr pos"
    and push: "pushTransit G curveInNode prevLine nextLine pos points = Inr points1"
    and loop: "transitLoop G nodeStates nodeLayouts scale curveInNode (nextLine # rest) points1
                 = Inr points'"
    by (auto split: sum.splits)
  from pushTransit_appends [OF push] obtain s1 where
    s1: "points1 = points @ s1" "\<forall>x \<in> set s1. definedPoint x" by blast
  from "1.IH" [OF pos push loop] obtain s2 where
    s2: "points' = points1 @ s2" "\<forall>x \<in> set s2. definedPoint x" by blast
  from s1 s2 have "points' = points @ (s1 @ s2) \<and> (\<forall>x \<in> set (s1 @ s2). definedPoint x)"
    by auto
  then show ?case by blast
qed simp_all

lemma startPoint_flag:
  assumes "startPoint G nodeStates nodeLayouts scale pathEndType margin e = Inr (p, over)"
  shows "\<exists>rs rt. scaledNodeRadius nodeStates scale (el_source e) = Inr rs
      \<and> scaledNodeRadius nodeStates scale (el_target e) = Inr rt
      \<and> over = (0 < margin
                 \<and> calculateDistance G (ln_source (el_line e)) (ln_target (el_line e))
                     \<le> margin + (if pathEndType = EdgeOfNode then rs else 0) + rt)"
  using assms
  by (auto simp: startPoint_def Let_def split: sum.splits if_splits)

lemma endPoint_appends:
  assumes "endPoint G nodeStates nodeLayouts scale pathEndType margin e points
             = Inr (points', over)"
  shows "\<exists>x rt rs. points' = points @ [x] \<and> definedPoint x
      \<and> scaledNodeRadius nodeStates scale (el_target e) = Inr rt
      \<and> scaledNodeRadius nodeStates scale (el_source e) = Inr rs
      \<and> over = (0 < margin
                 \<and> calculateDistance G (ln_source (el_line e)) (ln_target (el_line e))
                     \<le> margin + (if pathEndType = EdgeOfNode then rt else 0) + rs)"
  using assms
  by (auto simp: endPoint_def Let_def definedPoint_def
      split: sum.splits if_splits option.splits)

lemma trimOverrun_cons:
  "rest \<noteq> [] \<Longrightarrow> \<forall>x \<in> set rest. definedPoint x \<Longrightarrow>
   trimOverrun overStart overEnd (Pt p0 # rest) =
     (let kept = (if overStart
                  then (case rest of Arr (q # qs) # others \<Rightarrow> Pt q # rest | _ \<Rightarrow> rest)
                  else Pt p0 # rest)
      in if overEnd then butlast kept else kept)"
  by (cases rest)
     (auto simp: trimOverrun_def Let_def definedPoint_def split: pathPoint.splits list.splits)

lemma pathPointsBuilt_shape:
  assumes "pathPointsBuilt G path nodeStates nodeLayouts edgeStates scale curveInNode
             pathEndType margin = Inr (points, overStart, overEnd)"
  shows "\<exists>edgePos rs0 rt0 rt1 rs1 p0 rest.
      edgeLines edgeStates (zip (po_edges path) (detectDirectionsOfPathEdges (po_edges path)))
        = Inr edgePos
    \<and> edgePos \<noteq> []
    \<and> scaledNodeRadius nodeStates scale (el_source (hd edgePos)) = Inr rs0
    \<and> scaledNodeRadius nodeStates scale (el_target (hd edgePos)) = Inr rt0
    \<and> scaledNodeRadius nodeStates scale (el_target (last edgePos)) = Inr rt1
    \<and> scaledNodeRadius nodeStates scale (el_source (last edgePos)) = Inr rs1
    \<and> overStart =
        (0 < margin
         \<and> calculateDistance G (ln_source (el_line (hd edgePos)))
               (ln_target (el_line (hd edgePos)))
             \<le> margin + (if pathEndType = EdgeOfNode then rs0 else 0) + rt0)
    \<and> overEnd =
        (0 < margin
         \<and> calculateDistance G (ln_source (el_line (last edgePos)))
               (ln_target (el_line (last edgePos)))
             \<le> margin + (if pathEndType = EdgeOfNode then rt1 else 0) + rs1)
    \<and> points = Pt p0 # rest \<and> rest \<noteq> [] \<and> (\<forall>x \<in> set rest. definedPoint x)"
proof -
  from assms obtain edgePos p0 points1 where
    lines: "edgeLines edgeStates
              (zip (po_edges path) (detectDirectionsOfPathEdges (po_edges path))) = Inr edgePos"
    and ne: "edgePos \<noteq> []"
    and start: "startPoint G nodeStates nodeLayouts scale pathEndType margin (hd edgePos)
                  = Inr (p0, overStart)"
    and loop: "transitLoop G nodeStates nodeLayouts scale curveInNode edgePos [Pt p0]
                 = Inr points1"
    and fin: "endPoint G nodeStates nodeLayouts scale pathEndType margin (last edgePos) points1
                = Inr (points, overEnd)"
    by (auto simp: pathPointsBuilt_def Let_def split: sum.splits if_splits prod.splits)
  from startPoint_flag [OF start] obtain rs0 rt0 where
    s: "scaledNodeRadius nodeStates scale (el_source (hd edgePos)) = Inr rs0"
       "scaledNodeRadius nodeStates scale (el_target (hd edgePos)) = Inr rt0"
       "overStart = (0 < margin
          \<and> calculateDistance G (ln_source (el_line (hd edgePos)))
                (ln_target (el_line (hd edgePos)))
              \<le> margin + (if pathEndType = EdgeOfNode then rs0 else 0) + rt0)"
    by blast
  from transitLoop_appends [OF loop] obtain suffix where
    l: "points1 = [Pt p0] @ suffix" "\<forall>x \<in> set suffix. definedPoint x" by blast
  from endPoint_appends [OF fin] obtain x rt1 rs1 where
    e: "points = points1 @ [x]" "definedPoint x"
       "scaledNodeRadius nodeStates scale (el_target (last edgePos)) = Inr rt1"
       "scaledNodeRadius nodeStates scale (el_source (last edgePos)) = Inr rs1"
       "overEnd = (0 < margin
          \<and> calculateDistance G (ln_source (el_line (last edgePos)))
                (ln_target (el_line (last edgePos)))
              \<le> margin + (if pathEndType = EdgeOfNode then rt1 else 0) + rs1)"
    by blast
  have p: "points = Pt p0 # (suffix @ [x])" "suffix @ [x] \<noteq> []"
    "\<forall>y \<in> set (suffix @ [x]). definedPoint y"
    using l e(1,2) by auto
  show ?thesis
    using lines ne s e(3-5) p by blast
qed

text \<open>
  Claim C7, as the code has it. Whenever the path points are built (no lookup fails), the
  built sequence is the start boundary point followed by at least one further element.
  The start flag is set exactly when the margin is positive and the source-to-target
  distance of the first edge's line is at most the boundary offset plus the scaled radius
  of the node at the far end of that edge (the end flag likewise, for the last edge). If
  the start flag is set the start boundary point is removed, and when the element after
  it is an array its first point is put in front; if the end flag is set the last element
  is removed; when neither flag is set the built sequence is returned unchanged.
\<close>

theorem overrun_trimming:
  assumes "pathPointsBuilt G path nodeStates nodeLayouts edgeStates scale curveInNode
             pathEndType margin = Inr (points, overStart, overEnd)"
  shows "\<exists>edgePos rs0 rt0 rt1 rs1 p0 rest.
      edgeLines edgeStates (zip (po_edges path) (detectDirectionsOfPathEdges (po_edges path)))
        = Inr edgePos
    \<and> edgePos \<noteq> []
    \<and> scaledNodeRadius nodeStates scale (el_source (hd edgePos)) = Inr rs0
    \<and> scaledNodeRadius nodeStates scale (el_target (hd edgePos)) = Inr rt0
    \<and> scaledNodeRadius nodeStates scale (el_target (last edgePos)) = Inr rt1
    \<and> scaledNodeRadius nodeStates scale (el_source (last edgePos)) = Inr rs1
    \<and> overStart =
        (0 < margin
         \<and> calculateDistance G (ln_source (el_line (hd edgePos)))
               (ln_target (el_line (hd edgePos)))
             \<le> margin + (if pathEndType = EdgeOfNode then rs0 else 0) + rt0)
    \<and> overEnd =
        (0 < margin
         \<and> calculateDistance G (ln_source (el_line (last edgePos)))
               (ln_target (el_line (last edgePos)))
             \<le> margin + (if pathEndType = EdgeOfNode then rt1 else 0) + rs1)
    \<and> points = Pt p0 # rest \<and> rest \<noteq> []
    \<and> calculatePathPoints G path nodeStates nodeLayouts edgeStates scale curveInNode
          pathEndType margin
        = Inr (let kept = (if overStart
                           then (case rest of Arr (q # qs) # others \<Rightarrow> Pt q # rest | _ \<Rightarrow> rest)
                           else Pt p0 # rest)
               in if overEnd then butlast kept else kept)"
proof -
  from pathPointsBuilt_shape [OF assms] obtain edgePos rs0 rt0 rt1 rs1 p0 rest where
    f: "edgeLines edgeStates
          (zip (po_edges path) (detectDirectionsOfPathEdges (po_edges path))) = Inr edgePos"
       "edgePos \<noteq> []"
       "scaledNodeRadius nodeStates scale (el_source (hd edgePos)) = Inr rs0"
       "scaledNodeRadius nodeStates scale (el_target (hd edgePos)) = Inr rt0"
       "scaledNodeRadius nodeStates scale (el_target (last edgePos)) = Inr rt1"
       "scaledNodeRadius nodeStates scale (el_source (last edgePos)) = Inr rs1"
       "overStart = (0 < margin
          \<and> calculateDistance G (ln_source (el_line (hd edgePos)))
                (ln_target (el_line (hd edgePos)))
              \<le> margin + (if pathEndType = EdgeOfNode then rs0 else 0) + rt0)"
       "overEnd = (0 < margin
          \<and> calculateDistance G (ln_source (el_line (last edgePos)))
                (ln_target (el_line (last edgePos)))
              \<le> margin + (if pathEndType = EdgeOfNode then rt1 else 0) + rs1)"
    and p: "points = Pt p0 # rest" "rest \<noteq> []" "\<forall>x \<in> set rest. definedPoint x"
    by blast
  have "calculatePathPoints G path nodeStates nodeLayouts edgeStates scale curveInNode
          pathEndType margin
        = Inr (trimOverrun overStart overEnd (Pt p0 # rest))"
    using assms p(1) by (simp add: calculatePathPoints_def)
  also have "trimOverrun overStart overEnd (Pt p0 # rest) =
     (let kept = (if overStart
                  then (case rest of Arr (q # qs) # others \<Rightarrow> Pt q # rest | _ \<Rightarrow> rest)
                  else Pt p0 # rest)
      in if overEnd then butlast kept else kept)"
    by (rule trimOverrun_cons [OF p(2,3)])
  finally show ?thesis
    using f p(1,2) by blast
qed

lemma ex_path_lines:
  "edgeLines ex_pathEdgeStates
     (zip (po_edges ex_path) (detectDirectionsOfPathEdges (po_edges ex_path)))
   = Inr [\<lparr>el_edgeId = ''e1'', el_source = ''a'', el_target = ''b'',
           el_line = \<lparr>ln_source = (0, 0), ln_target = (10, 0), ln_v = (10, 0)\<rparr>,
           el_curve = None\<rparr>]"
  by (simp add: ex_path_def ex_pathEdgeStates_def ex_edge_def detectDirectionsOfPathEdges_def
      getEdgeLine_def Let_def fromLinePosition_def vec_subtract_def)

lemma ex_path_radius:
  "scaledNodeRadius ex_pathStates 1 ''a'' = Inr 3"
  "scaledNodeRadius ex_pathStates 1 ''b'' = Inr 3"
  by (simp_all add: scaledNodeRadius_def ex_pathStates_def ex_nodeState_def ex_circle_def
      getNodeRadius_def)

lemma ex_path_built:
  "pathPointsBuilt specGeometry ex_path ex_pathStates ex_pathLayouts ex_pathEdgeStates 1 False
     EdgeOfNode 4
   = Inr ([Pt (7, 0), Pt (3, 0)], True, True)"
  by (simp add: pathPointsBuilt_def Let_def ex_path_lines startPoint_def endPoint_def
      ex_path_radius calculateEdgeOfNode_def ex_pathLayouts_def
      spec_getIntersectionOfLineTargetAndCircle_def spec_lineCircle_def
      spec_calculateDistance_def spec_length_def vec_subtract_def vec_add_def
      multiplyScalar_def sqrt_values)

theorem overrun_trimming_witness:
  "pathPointsBuilt specGeometry ex_path ex_pathStates ex_pathLayouts ex_pathEdgeStates 1 False
     EdgeOfNode 4
   = Inr ([Pt (7, 0), Pt (3, 0)], True, True)
   \<and> calculatePathPoints specGeometry ex_path ex_pathStates ex_pathLayouts ex_pathEdgeStates 1
       False EdgeOfNode 4
     = Inr []"
  using overrun_trimming [OF ex_path_built] ex_path_built
  by auto

text \<open>
  For the single-edge path of the example, with margin \<open>4\<close> and the path ending at the
  edge of the node, the boundary offset is \<open>4 + 3 = 7\<close> at both ends and the
  source-to-target distance is \<open>10\<close>: the offset does not meet the distance, yet both
  boundary points \<open>(7, 0)\<close> and \<open>(3, 0)\<close> are dropped and the returned sequence is
  empty, because \<open>10 \<le> 7 + 3\<close>, the offset plus the radius of the far node.
\<close>

theorem boundary_points_dropped_below_distance:
  "\<not> specOverrun specGeometry (4 + 3)
        \<lparr>el_edgeId = ''e1'', el_source = ''a'', el_target = ''b'',
         el_line = \<lparr>ln_source = (0, 0), ln_target = (10, 0), ln_v = (10, 0)\<rparr>,
         el_curve = None\<rparr>
   \<and> pathPointsBuilt specGeometry ex_path ex_pathStates ex_pathLayouts ex_pathEdgeStates 1 False
       EdgeOfNode 4
     = Inr ([Pt (7, 0), Pt (3, 0)], True, True)
   \<and> calculatePathPoints specGeometry ex_path ex_pathStates ex_pathLayouts ex_pathEdgeStates 1
       False EdgeOfNode 4
     = Inr []"
  by (simp add: specOverrun_def spec_calculateDistance_def spec_length_def vec_subtract_def
      sqrt_values ex_path_built calculatePathPoints_def trimOverrun_def)

end
